theory Spec2Isabelle
  imports Complex_Main "HOL-Library.Multiset"
begin

section \<open>Forwarder: backoff schedule and retry loop\<close>

text \<open>
  The backoff configuration of a forwarding rule is a decoded JSON object
  (\<^verbatim>\<open>map[string]interface{}\<close>). The function reads four keys with type assertions
  that yield the zero value when the key is absent or holds a value of another type.
  A JSON number decodes to a finite float64, which is a rational number.

  The delay is computed in float64. A float64 is a finite value, an infinity or NaN.
  A product of two finite values is the exact product rounded to a float64, or an
  infinity when the exact product is out of range; the rounding is the processor's and
  is given to the model as a function that returns the rounded value, or \<open>None\<close> on
  overflow. The result \<^verbatim>\<open>time.Duration(delayMs) * time.Millisecond\<close> truncates the
  float64 towards zero to an int64 (Go leaves the conversion of a value outside int64
  to the implementation: \<open>None\<close>) and multiplies by \<open>1000000\<close> in int64, which wraps.
\<close>

datatype json = JNull | JBool bool | JNum rat | JStr string

type_synonym backoff_config = "string \<rightharpoonup> json"

datatype float64 = Fin rat | PosInf | NegInf | NaN

type_synonym rounding = "rat \<Rightarrow> rat option"

definition int64_wrap :: "int \<Rightarrow> int" where
  "int64_wrap x = (x + 2 ^ 63) mod 2 ^ 64 - 2 ^ 63"

definition round_to :: "rounding \<Rightarrow> rat \<Rightarrow> float64" where
  "round_to rnd q = (case rnd q of Some r \<Rightarrow> Fin r | None \<Rightarrow> if q > 0 then PosInf else NegInf)"

fun fsign :: "float64 \<Rightarrow> int" where
  "fsign (Fin a) = (if a > 0 then 1 else if a < 0 then - 1 else 0)"
| "fsign PosInf = 1"
| "fsign NegInf = - 1"
| "fsign NaN = 0"

fun fmul :: "rounding \<Rightarrow> float64 \<Rightarrow> float64 \<Rightarrow> float64" where
  "fmul rnd (Fin a) (Fin b) = round_to rnd (a * b)"
| "fmul rnd x y =
     (if x = NaN \<or> y = NaN then NaN
      else if fsign x * fsign y > 0 then PosInf
      else if fsign x * fsign y < 0 then NegInf
      else NaN)"

fun fless :: "float64 \<Rightarrow> float64 \<Rightarrow> bool" where
  "fless (Fin a) (Fin b) \<longleftrightarrow> a < b"
| "fless (Fin a) PosInf \<longleftrightarrow> True"
| "fless NegInf (Fin b) \<longleftrightarrow> True"
| "fless NegInf PosInf \<longleftrightarrow> True"
| "fless x y \<longleftrightarrow> False"

definition float64_of_int :: "rounding \<Rightarrow> int \<Rightarrow> float64" where
  "float64_of_int rnd i = round_to rnd (of_int i)"

definition trunc_zero :: "rat \<Rightarrow> int" where
  "trunc_zero q = (if q \<ge> 0 then \<lfloor>q\<rfloor> else \<lceil>q\<rceil>)"

definition int64_of_float64 :: "float64 \<Rightarrow> int option" where
  "int64_of_float64 x =
     (case x of
        Fin q \<Rightarrow> if - (2 ^ 63) \<le> trunc_zero q \<and> trunc_zero q < 2 ^ 63 then Some (trunc_zero q) else None
      | _ \<Rightarrow> None)"

definition as_string :: "json option \<Rightarrow> string" where
  "as_string v = (case v of Some (JStr s) \<Rightarrow> s | _ \<Rightarrow> [])"

definition as_float64 :: "json option \<Rightarrow> rat" where
  "as_float64 v = (case v of Some (JNum n) \<Rightarrow> n | _ \<Rightarrow> 0)"

text \<open>The value of \<^verbatim>\<open>delayMs\<close> when the function converts it to a duration.\<close>

definition delay_ms :: "rounding \<Rightarrow> int \<Rightarrow> backoff_config \<Rightarrow> float64" where
  "delay_ms rnd attempt config =
     (let backoffType = as_string (config ''type'');
          base0 = as_float64 (config ''base'');
          minMs0 = as_float64 (config ''min_ms'');
          maxMs0 = as_float64 (config ''max_ms'');
          base = (if base0 = 0 then 2 else base0);
          minMs = (if minMs0 = 0 then 1000 else minMs0);
          maxMs = (if maxMs0 = 0 then 30000 else maxMs0);
          delayMs = (if backoffType = ''exponential''
                       then fmul rnd (Fin minMs)
                              (fmul rnd (Fin base) (float64_of_int rnd (int64_wrap (attempt - 1))))
                     else if backoffType = ''linear''
                       then fmul rnd (Fin minMs) (float64_of_int rnd attempt)
                     else Fin minMs);
          delayMs1 = (if fless (Fin maxMs) delayMs then Fin maxMs else delayMs);
          delayMs2 = (if fless delayMs1 (Fin minMs) then Fin minMs else delayMs1)
      in delayMs2)"

text \<open>The returned duration, in nanoseconds.\<close>

definition calculateBackoff :: "rounding \<Rightarrow> int \<Rightarrow> backoff_config \<Rightarrow> int option" where
  "calculateBackoff rnd attempt config =
     (case int64_of_float64 (delay_ms rnd attempt config) of
        None \<Rightarrow> None
      | Some d \<Rightarrow> Some (int64_wrap (d * 1000000)))"

text \<open>The fields of the configuration after the defaults have been filled in.\<close>

definition eff_base :: "backoff_config \<Rightarrow> rat" where
  "eff_base config = (if as_float64 (config ''base'') = 0 then 2 else as_float64 (config ''base''))"

definition eff_min_ms :: "backoff_config \<Rightarrow> rat" where
  "eff_min_ms config =
     (if as_float64 (config ''min_ms'') = 0 then 1000 else as_float64 (config ''min_ms''))"

definition eff_max_ms :: "backoff_config \<Rightarrow> rat" where
  "eff_max_ms config =
     (if as_float64 (config ''max_ms'') = 0 then 30000 else as_float64 (config ''max_ms''))"

text \<open>The delay before clamping, as the specification words it.\<close>

definition raw_delay :: "int \<Rightarrow> backoff_config \<Rightarrow> rat" where
  "raw_delay n config =
     (if as_string (config ''type'') = ''exponential''
        then eff_min_ms config * eff_base config * of_int (n - 1)
      else if as_string (config ''type'') = ''linear'' then eff_min_ms config * of_int n
      else eff_min_ms config)"

text \<open>The float64 value of \<^verbatim>\<open>delayMs\<close> before the two clamps.\<close>

definition raw_float :: "rounding \<Rightarrow> int \<Rightarrow> backoff_config \<Rightarrow> float64" where
  "raw_float rnd n config =
     (if as_string (config ''type'') = ''exponential''
        then fmul rnd (Fin (eff_min_ms config))
               (fmul rnd (Fin (eff_base config)) (float64_of_int rnd (int64_wrap (n - 1))))
      else if as_string (config ''type'') = ''linear''
        then fmul rnd (Fin (eff_min_ms config)) (float64_of_int rnd n)
      else Fin (eff_min_ms config))"

text \<open>
  The products of the schedule at attempt \<open>n\<close> are exact when the rounding leaves
  them as they are: then the float64 arithmetic computes \<open>raw_delay\<close>.
\<close>

definition schedule_exact :: "rounding \<Rightarrow> int \<Rightarrow> backoff_config \<Rightarrow> bool" where
  "schedule_exact rnd n config \<longleftrightarrow>
     (if as_string (config ''type'') = ''exponential''
        then rnd (of_int (n - 1)) = Some (of_int (n - 1)) \<and>
             rnd (eff_base config * of_int (n - 1)) = Some (eff_base config * of_int (n - 1)) \<and>
             rnd (eff_min_ms config * (eff_base config * of_int (n - 1))) =
               Some (eff_min_ms config * (eff_base config * of_int (n - 1)))
      else if as_string (config ''type'') = ''linear''
        then rnd (of_int n) = Some (of_int n) \<and>
             rnd (eff_min_ms config * of_int n) = Some (eff_min_ms config * of_int n)
      else True)"

text \<open>
  One forwarding attempt (\<^verbatim>\<open>executeForward\<close>) either fails to build the outgoing
  request, fails in transport, or receives a response with a status code. Each of the
  three paths hands one row to \<^verbatim>\<open>recordForwardAttempt\<close>, whose insert may fail
  (the failure is printed and the attempt goes on). The environment fixes, for each
  attempt number, what the HTTP client returns and whether the insert succeeds.
\<close>

datatype attempt_result = BuildError | TransportError | Response int

record forward_env =
  http_result :: "int \<Rightarrow> attempt_result"
  insert_ok :: "int \<Rightarrow> bool"
  round64 :: rounding

record attempt_row =
  attempt_number :: int
  status :: string
  response_status :: int

record forward_state =
  calls :: "int list"
  rows :: "attempt_row list"
  sleeps :: "int option list"

definition recordForwardAttempt ::
  "forward_env \<Rightarrow> int \<Rightarrow> string \<Rightarrow> int \<Rightarrow> forward_state \<Rightarrow> forward_state" where
  "recordForwardAttempt env attemptNumber st responseStatus s =
     (if insert_ok env attemptNumber
        then s\<lparr>rows := rows s @
               [\<lparr>attempt_number = attemptNumber, status = st, response_status = responseStatus\<rparr>]\<rparr>
      else s)"

definition executeForward :: "forward_env \<Rightarrow> int \<Rightarrow> forward_state \<Rightarrow> bool \<times> forward_state" where
  "executeForward env attemptNumber s =
     (let s1 = s\<lparr>calls := calls s @ [attemptNumber]\<rparr>
      in case http_result env attemptNumber of
           BuildError \<Rightarrow> (False, recordForwardAttempt env attemptNumber ''failed'' 0 s1)
         | TransportError \<Rightarrow> (False, recordForwardAttempt env attemptNumber ''failed'' 0 s1)
         | Response code \<Rightarrow>
             (let st = (if code \<ge> 400 then ''failed'' else ''success'')
              in (st = ''success'', recordForwardAttempt env attemptNumber st code s1)))"

function retry_loop ::
  "forward_env \<Rightarrow> backoff_config \<Rightarrow> int \<Rightarrow> int \<Rightarrow> forward_state \<Rightarrow> forward_state" where
  "retry_loop env config maxRetries attempt s =
     (if attempt \<le> maxRetries then
        (case executeForward env attempt s of
           (success, s1) \<Rightarrow>
             if success then s1
             else retry_loop env config maxRetries (attempt + 1)
                    (if attempt < maxRetries
                       then s1\<lparr>sleeps := sleeps s1 @ [calculateBackoff (round64 env) attempt config]\<rparr>
                     else s1))
      else s)"
  by pat_completeness auto
termination
  by (relation "measure (\<lambda>(env, config, maxRetries, attempt, s). nat (maxRetries + 1 - attempt))")
     auto

declare retry_loop.simps [simp del]

text \<open>
  The retry part of \<^verbatim>\<open>forwardRequest\<close>: the guard on \<^verbatim>\<open>rule.MaxRetries\<close> and the
  loop from attempt 1. The method, headers and body prepared before the loop are the
  same in every attempt and reach the outcome only through the environment.
\<close>

definition forwardRequest :: "forward_env \<Rightarrow> backoff_config \<Rightarrow> int \<Rightarrow> forward_state" where
  "forwardRequest env config ruleMaxRetries =
     (let maxRetries = (if ruleMaxRetries < 1 then 1 else ruleMaxRetries)
      in retry_loop env config maxRetries 1 \<lparr>calls = [], rows = [], sleeps = []\<rparr>)"

definition attempt_succeeds :: "forward_env \<Rightarrow> int \<Rightarrow> bool" where
  "attempt_succeeds env k = (case http_result env k of Response code \<Rightarrow> code < 400 | _ \<Rightarrow> False)"

text \<open>What the loop started at attempt \<open>a\<close> in state \<open>s\<close> has done when it stops in \<open>r\<close>
  after attempt \<open>n\<close>.\<close>

definition loop_shape ::
  "forward_env \<Rightarrow> backoff_config \<Rightarrow> int \<Rightarrow> int \<Rightarrow> forward_state \<Rightarrow> forward_state \<Rightarrow> int \<Rightarrow> bool" where
  "loop_shape env config M a s r n \<longleftrightarrow>
     a \<le> n \<and> n \<le> M \<and>
     calls r = calls s @ [a..n] \<and>
     map attempt_number (rows r) = map attempt_number (rows s) @ filter (insert_ok env) [a..n] \<and>
     (\<forall>k. a \<le> k \<and> k < n \<longrightarrow> \<not> attempt_succeeds env k) \<and>
     (n < M \<longrightarrow> attempt_succeeds env n) \<and>
     sleeps r = sleeps s @ map (\<lambda>k. calculateBackoff (round64 env) k config)
                  [a..(if attempt_succeeds env n then n - 1 else M - 1)]"

text \<open>
  Concrete rules and targets used to evaluate the forwarder. Their numbers are small
  integers and halves, whose products the float64 rounding leaves as they are.
\<close>

definition no_rounding :: rounding where
  "no_rounding q = Some q"

definition inverted_config :: backoff_config where
  "inverted_config = [''type'' \<mapsto> JStr ''linear'', ''min_ms'' \<mapsto> JNum 5000, ''max_ms'' \<mapsto> JNum 1000]"

definition negative_min_config :: backoff_config where
  "negative_min_config = [''type'' \<mapsto> JStr ''exponential'', ''min_ms'' \<mapsto> JNum (- 100)]"

definition half_ms_config :: backoff_config where
  "half_ms_config = [''min_ms'' \<mapsto> JNum (1 / 2)]"

definition exponential_config :: backoff_config where
  "exponential_config = [''type'' \<mapsto> JStr ''exponential'']"

definition linear_config :: backoff_config where
  "linear_config = [''type'' \<mapsto> JStr ''linear'', ''min_ms'' \<mapsto> JNum 10, ''max_ms'' \<mapsto> JNum 100]"

definition flaky_target :: forward_env where
  "flaky_target = \<lparr>http_result = (\<lambda>k. if k < 3 then Response 500 else Response 200),
                    insert_ok = (\<lambda>k. True), round64 = no_rounding\<rparr>"

definition lossy_store :: forward_env where
  "lossy_store = \<lparr>http_result = (\<lambda>k. if k < 2 then Response 500 else Response 200),
                   insert_ok = (\<lambda>k. k \<noteq> 1), round64 = no_rounding\<rparr>"

section \<open>Rate limiter\<close>

text \<open>
  Instants are nanosecond readings of the process clock; \<^verbatim>\<open>t.After(u)\<close> is the strict
  order. The limiter is the process-wide map from the endpoint key to the admission
  timestamps it has kept.
\<close>

type_synonym time = int

definition second :: int where
  "second = 1000000000"

definition minute :: int where
  "minute = 60 * second"

definition hour :: int where
  "hour = 60 * minute"

definition After :: "time \<Rightarrow> time \<Rightarrow> bool" where
  "After t u \<longleftrightarrow> u < t"

datatype 'a query_result = Row 'a | NoRows | QueryError string

record rate_limits =
  rate_limit_per_minute :: "int option"
  rate_limit_per_hour :: "int option"
  rate_limit_per_day :: "int option"

type_synonym rateLimiter = "string \<rightharpoonup> time list"

datatype rate_error = RateLimitExceeded int string

definition requests_of :: "rateLimiter \<Rightarrow> string \<Rightarrow> time list" where
  "requests_of m key = (case m key of None \<Rightarrow> [] | Some ts \<Rightarrow> ts)"

definition count_after :: "time \<Rightarrow> time list \<Rightarrow> int" where
  "count_after cutoff ts = int (length (filter (\<lambda>t. After t cutoff) ts))"

definition clean_old :: "string \<Rightarrow> time \<Rightarrow> rateLimiter \<Rightarrow> rateLimiter" where
  "clean_old key now m =
     (case m key of
        Some requests \<Rightarrow> m(key \<mapsto> filter (\<lambda>t. After t (now - 1 * hour)) requests)
      | None \<Rightarrow> m)"

definition check_window ::
  "int option \<Rightarrow> time \<Rightarrow> string \<Rightarrow> time list \<Rightarrow> rate_error option" where
  "check_window limit cutoff unit ts =
     (case limit of
        None \<Rightarrow> None
      | Some l \<Rightarrow> if count_after cutoff ts \<ge> l then Some (RateLimitExceeded l unit) else None)"

definition CheckRateLimit ::
  "rate_limits query_result \<Rightarrow> string \<Rightarrow> time \<Rightarrow> rateLimiter \<Rightarrow>
     (bool \<times> rate_error option) \<times> rateLimiter" where
  "CheckRateLimit settings key now m =
     (case settings of
        Row lims \<Rightarrow>
          (let m1 = clean_old key now m;
               ts = requests_of m1 key
           in case check_window (rate_limit_per_minute lims) (now - 1 * minute) ''minute'' ts of
                Some e \<Rightarrow> ((False, Some e), m1)
              | None \<Rightarrow>
           (case check_window (rate_limit_per_hour lims) (now - 1 * hour) ''hour'' ts of
                Some e \<Rightarrow> ((False, Some e), m1)
              | None \<Rightarrow>
           (case check_window (rate_limit_per_day lims) (now - 24 * hour) ''day'' ts of
                Some e \<Rightarrow> ((False, Some e), m1)
              | None \<Rightarrow> ((True, None), m1(key \<mapsto> ts @ [now])))))
      | _ \<Rightarrow> ((True, None), m))"


text \<open>
  A run of the limiter: the calls arrive one after the other under the mutex, each with
  its endpoint key, its clock reading and what the settings query returned; the history
  keeps the verdict of every call.
\<close>

type_synonym limiter_call = "string \<times> time \<times> rate_limits query_result"

definition limiter_step ::
  "rateLimiter \<times> (string \<times> time \<times> bool) list \<Rightarrow> limiter_call \<Rightarrow>
     rateLimiter \<times> (string \<times> time \<times> bool) list" where
  "limiter_step st c =
     (case st of (m, hist) \<Rightarrow>
        (case c of (key, now, settings) \<Rightarrow>
           (case CheckRateLimit settings key now m of
              (res, m') \<Rightarrow> (m', hist @ [(key, now, fst res)]))))"

definition run_limiter ::
  "limiter_call list \<Rightarrow> rateLimiter \<times> (string \<times> time \<times> bool) list" where
  "run_limiter cs = foldl limiter_step (Map.empty, []) cs"

definition admissions :: "string \<Rightarrow> (string \<times> time \<times> bool) list \<Rightarrow> time list" where
  "admissions key hist = map (\<lambda>e. fst (snd e)) (filter (\<lambda>e. fst e = key \<and> snd (snd e)) hist)"

definition in_window :: "time \<Rightarrow> int \<Rightarrow> time \<Rightarrow> bool" where
  "in_window T width t \<longleftrightarrow> T - width < t \<and> t \<le> T"




definition only_day_limit :: "int \<Rightarrow> rate_limits query_result" where
  "only_day_limit D =
     Row \<lparr>rate_limit_per_minute = None, rate_limit_per_hour = None, rate_limit_per_day = Some D\<rparr>"

definition only_minute_limit :: "int \<Rightarrow> rate_limits query_result" where
  "only_minute_limit L =
     Row \<lparr>rate_limit_per_minute = Some L, rate_limit_per_hour = None, rate_limit_per_day = None\<rparr>"

section \<open>Bytes, text and identifiers\<close>

text \<open>
  A byte slice and a Go string are both sequences of bytes; \<open>char\<close> is the 8-bit byte,
  so \<^verbatim>\<open>string(body)\<close> is the identity. The three library functions the capture path
  calls on the body are modelled by what they compute: \<^verbatim>\<open>utf8.Valid\<close> accepts exactly
  the well-formed UTF-8 sequences (no overlong forms, no surrogates, nothing above
  U+10FFFF), \<^verbatim>\<open>base64.StdEncoding.EncodeToString\<close> is the padded base64 of RFC 4648,
  \<^verbatim>\<open>hex.EncodeToString\<close> writes two lower-case digits per byte.
\<close>

definition continuation :: "nat \<Rightarrow> bool" where
  "continuation b \<longleftrightarrow> 128 \<le> b \<and> b \<le> 191"

fun utf8_valid_bytes :: "nat list \<Rightarrow> bool" where
  "utf8_valid_bytes [] = True"
| "utf8_valid_bytes (a # rest) =
     (if a < 128 then utf8_valid_bytes rest
      else if 194 \<le> a \<and> a \<le> 223 then
        (case rest of
           b # r \<Rightarrow> continuation b \<and> utf8_valid_bytes r
         | _ \<Rightarrow> False)
      else if 224 \<le> a \<and> a \<le> 239 then
        (case rest of
           b # c # r \<Rightarrow>
             (if a = 224 then 160 \<le> b \<and> b \<le> 191
              else if a = 237 then 128 \<le> b \<and> b \<le> 159
              else continuation b) \<and>
             continuation c \<and> utf8_valid_bytes r
         | _ \<Rightarrow> False)
      else if 240 \<le> a \<and> a \<le> 244 then
        (case rest of
           b # c # d # r \<Rightarrow>
             (if a = 240 then 144 \<le> b \<and> b \<le> 191
              else if a = 244 then 128 \<le> b \<and> b \<le> 143
              else continuation b) \<and>
             continuation c \<and> continuation d \<and> utf8_valid_bytes r
         | _ \<Rightarrow> False)
      else False)"

definition utf8_Valid :: "string \<Rightarrow> bool" where
  "utf8_Valid p = utf8_valid_bytes (map of_char p)"

definition encodeStd :: string where
  "encodeStd = ''ABCDEFGHIJKLMNOPQRSTUVWXYZabcdefghijklmnopqrstuvwxyz0123456789+/''"

definition b64 :: "nat \<Rightarrow> char" where
  "b64 n = encodeStd ! n"

fun base64_EncodeToString :: "string \<Rightarrow> string" where
  "base64_EncodeToString [] = []"
| "base64_EncodeToString [a] =
     (let x = (of_char a :: nat)
      in [b64 (x div 4), b64 ((x mod 4) * 16), CHR ''='', CHR ''=''])"
| "base64_EncodeToString [a, b] =
     (let x = (of_char a :: nat); y = (of_char b :: nat)
      in [b64 (x div 4), b64 ((x mod 4) * 16 + y div 16), b64 ((y mod 16) * 4), CHR ''=''])"
| "base64_EncodeToString (a # b # c # rest) =
     (let x = (of_char a :: nat); y = (of_char b :: nat); z = (of_char c :: nat)
      in [b64 (x div 4), b64 ((x mod 4) * 16 + y div 16),
          b64 ((y mod 16) * 4 + z div 64), b64 (z mod 64)]) @ base64_EncodeToString rest"

definition hextable :: string where
  "hextable = ''0123456789abcdef''"

definition hex_byte :: "char \<Rightarrow> string" where
  "hex_byte c = [hextable ! ((of_char c :: nat) div 16), hextable ! ((of_char c :: nat) mod 16)]"

definition hex_EncodeToString :: "string \<Rightarrow> string" where
  "hex_EncodeToString bs = concat (map hex_byte bs)"

text \<open>
  A UUID is its 16 bytes; \<^verbatim>\<open>String()\<close> prints them in hex in the groups 4-2-2-2-6
  separated by hyphens.
\<close>

datatype uuid = UUID string

fun uuid_String :: "uuid \<Rightarrow> string" where
  "uuid_String (UUID u) =
     hex_EncodeToString (take 4 u) @ ''-'' @
     hex_EncodeToString (take 2 (drop 4 u)) @ ''-'' @
     hex_EncodeToString (take 2 (drop 6 u)) @ ''-'' @
     hex_EncodeToString (take 2 (drop 8 u)) @ ''-'' @
     hex_EncodeToString (drop 10 u)"

definition has_prefix :: "string \<Rightarrow> string \<Rightarrow> bool" where
  "has_prefix s p \<longleftrightarrow> take (length p) s = p"

definition TrimPrefix :: "string \<Rightarrow> string \<Rightarrow> string" where
  "TrimPrefix s p = (if has_prefix s p then drop (length p) s else s)"

text \<open>
  The text under which a captured body is stored (\<^verbatim>\<open>bodyStr\<close> of the capture handler,
  \<open>None\<close> for the SQL NULL of an empty body), and the text under which the forwarder
  and the replay executor store a response body (\<^verbatim>\<open>respBodyStr\<close>).
\<close>

definition capture_body_text :: "string \<Rightarrow> string option" where
  "capture_body_text body =
     (if length body > 0
        then (if utf8_Valid body then Some body else Some (base64_EncodeToString body))
      else None)"

definition binary_marker :: string where
  "binary_marker = ''[BINARY DATA - Base64 Encoded]'' @ [CHR 0x0A]"

definition response_body_text :: "string \<Rightarrow> string option" where
  "response_body_text respBody =
     (if length respBody > 0
        then (if utf8_Valid respBody then Some respBody
              else Some (binary_marker @ base64_EncodeToString respBody))
      else None)"

section \<open>Signature verifier\<close>

text \<open>
  Request headers are keyed by their canonical names; \<^verbatim>\<open>Header.Get\<close> returns the first
  value or the empty string. The keyed hash itself is the library's: the verifier is
  given it as a function from the hash, the key and the message to the raw digest.
  \<^verbatim>\<open>hmac.Equal\<close> is equality of the two byte strings (its running time is outside
  the model).
\<close>

type_synonym header = "string \<rightharpoonup> string list"

definition Header_Get :: "header \<Rightarrow> string \<Rightarrow> string" where
  "Header_Get h key = (case h key of None \<Rightarrow> [] | Some [] \<Rightarrow> [] | Some (v # _) \<Rightarrow> v)"

datatype hash_alg = SHA1 | SHA256 | SHA512

type_synonym hmac_fun = "hash_alg \<Rightarrow> string \<Rightarrow> string \<Rightarrow> string"

datatype verify_error = FetchSettingsFailed string | NoSignatureHeader

fun verify_error_text :: "verify_error \<Rightarrow> string" where
  "verify_error_text (FetchSettingsFailed e) = ''failed to fetch settings: '' @ e"
| "verify_error_text NoSignatureHeader = ''no signature header found''"

definition signature_header :: "header \<Rightarrow> string" where
  "signature_header h =
     (let s1 = Header_Get h ''X-Signature'';
          s2 = (if s1 = [] then Header_Get h ''X-Hub-Signature-256'' else s1);
          s3 = (if s2 = [] then Header_Get h ''X-Stripe-Signature'' else s2);
          s4 = (if s3 = [] then Header_Get h ''Signature'' else s3)
      in s4)"

definition strip_prefixes :: "string \<Rightarrow> string \<Rightarrow> string" where
  "strip_prefixes algorithm signature =
     TrimPrefix (TrimPrefix (TrimPrefix (TrimPrefix signature (algorithm @ ''=''))
       ''sha256='') ''sha1='') ''sha512=''"

definition expected_signature :: "hmac_fun \<Rightarrow> string \<Rightarrow> string \<Rightarrow> string \<Rightarrow> string" where
  "expected_signature mac algorithm secret body =
     (if algorithm = ''sha1'' then hex_EncodeToString (mac SHA1 secret body)
      else if algorithm = ''sha512'' then hex_EncodeToString (mac SHA512 secret body)
      else hex_EncodeToString (mac SHA256 secret body))"

definition hmac_Equal :: "string \<Rightarrow> string \<Rightarrow> bool" where
  "hmac_Equal a b \<longleftrightarrow> a = b"

definition VerifySignature ::
  "hmac_fun \<Rightarrow> (string option \<times> string) query_result \<Rightarrow> header \<Rightarrow> string \<Rightarrow>
     bool \<times> verify_error option" where
  "VerifySignature mac settings h body =
     (case settings of
        NoRows \<Rightarrow> (True, None)
      | QueryError e \<Rightarrow> (False, Some (FetchSettingsFailed e))
      | Row (secret, algorithm) \<Rightarrow>
          (case secret of
             None \<Rightarrow> (True, None)
           | Some sec \<Rightarrow>
               if sec = [] then (True, None)
               else
                 (let signature = signature_header h
                  in if signature = [] then (False, Some NoSignatureHeader)
                     else (hmac_Equal (strip_prefixes algorithm signature)
                             (expected_signature mac algorithm sec body), None))))"

section \<open>Event bus\<close>

text \<open>
  The manager maps a key to the set of connections registered under it; a connection is
  known by its identity and owns a channel with a buffer of 10 messages. A send in a
  \<^verbatim>\<open>select\<close> with a \<^verbatim>\<open>default\<close> branch succeeds when the buffer has room and is
  skipped otherwise.
\<close>

record sseManager =
  connections :: "string \<rightharpoonup> nat list"
  channels :: "nat \<Rightarrow> string list"

record sse_event =
  ev_id :: uuid
  ev_endpoint_id :: uuid
  ev_method :: string

definition channel_capacity :: nat where
  "channel_capacity = 10"

definition try_send :: "string \<Rightarrow> sseManager \<Rightarrow> nat \<Rightarrow> sseManager" where
  "try_send data mgr conn =
     (if length (channels mgr conn) < channel_capacity
        then mgr\<lparr>channels := (channels mgr)(conn := channels mgr conn @ [data])\<rparr>
      else mgr)"

definition broadcastToSSE ::
  "(sse_event \<Rightarrow> string option) \<Rightarrow> string \<Rightarrow> sse_event \<Rightarrow> sseManager \<Rightarrow> sseManager" where
  "broadcastToSSE marshal endpointKey event mgr =
     (case connections mgr endpointKey of
        None \<Rightarrow> mgr
      | Some conns \<Rightarrow>
          (if length conns = 0 then mgr
           else (case marshal event of
                   None \<Rightarrow> mgr
                 | Some data \<Rightarrow> foldl (try_send data) mgr conns)))"

definition publishRequestEvent ::
  "(sse_event \<Rightarrow> string option) \<Rightarrow> uuid \<Rightarrow> uuid \<Rightarrow> string \<Rightarrow> sseManager \<Rightarrow> sseManager" where
  "publishRequestEvent marshal endpointID requestID m mgr =
     broadcastToSSE marshal (uuid_String endpointID)
       \<lparr>ev_id = requestID, ev_endpoint_id = endpointID, ev_method = m\<rparr> mgr"

text \<open>
  The registration done by \<^verbatim>\<open>RealtimeHandler\<close> for the stream
  \<^verbatim>\<open>GET /api/v1/realtime?endpoint=slug\<close>: an empty slug is refused, otherwise a new
  connection with an empty channel is entered under the slug.
\<close>

definition register_connection :: "string \<Rightarrow> nat \<Rightarrow> sseManager \<Rightarrow> sseManager option" where
  "register_connection slug conn mgr =
     (if slug = [] then None
      else Some (mgr\<lparr>connections := (connections mgr)
                         (slug \<mapsto> (case connections mgr slug of
                                     None \<Rightarrow> [conn]
                                   | Some cs \<Rightarrow> cs @ [conn])),
                      channels := (channels mgr)(conn := [])\<rparr>))"

definition empty_manager :: sseManager where
  "empty_manager = \<lparr>connections = Map.empty, channels = (\<lambda>c. [])\<rparr>"

section \<open>Capture handler\<close>

text \<open>
  The database holds the endpoints by slug and the settings row of an endpoint; a query
  can also fail, which the request carries as the driver's message for that query.
  The request further carries what the handler computes with library calls that no
  property here reads: the JSON of the headers and of the query parameters and the
  cleaned client address. The body arrives as a stream that ends normally or breaks
  with a read error after its bytes.
  The handler returns the response and the server state it leaves: the stored request
  rows, the limiter and the event bus. The forwarding it starts in a goroutine after the
  publish runs on its own and is modelled by the forwarder above.
\<close>

record settings_row =
  hmac_secret :: "string option"
  hmac_algorithm :: "string option"
  limits :: rate_limits

record database =
  endpoints :: "string \<rightharpoonup> uuid"
  endpoint_settings :: "uuid \<rightharpoonup> settings_row"

record inbound =
  url_path :: string
  http_method :: string
  headers :: header
  body_stream :: string
  body_broken :: bool
  headers_json :: string
  query_params_json :: string
  client_ip :: "string option"
  clock :: time
  new_uuid :: uuid
  endpoint_query_fault :: "string option"
  rate_query_fault :: "string option"
  hmac_query_fault :: "string option"
  insert_fault :: "string option"

record request_row =
  req_id :: uuid
  req_endpoint_id :: uuid
  req_method :: string
  req_path :: string
  req_headers :: string
  req_query_params :: string
  req_ip :: "string option"
  req_body :: "string option"
  req_body_size :: int
  req_content_type :: "string option"

record platform =
  hmac :: hmac_fun
  marshal_event :: "sse_event \<Rightarrow> string option"
  app_max_body_size :: "int option"

record server =
  requests :: "request_row list"
  limiter :: rateLimiter
  bus :: sseManager

record response =
  code :: int
  message :: string

definition query_endpoint :: "database \<Rightarrow> string option \<Rightarrow> string \<Rightarrow> uuid query_result" where
  "query_endpoint db fault slug =
     (case fault of
        Some e \<Rightarrow> QueryError e
      | None \<Rightarrow> (case endpoints db slug of None \<Rightarrow> NoRows | Some i \<Rightarrow> Row i))"

definition query_rate_limits ::
  "database \<Rightarrow> string option \<Rightarrow> uuid \<Rightarrow> rate_limits query_result" where
  "query_rate_limits db fault i =
     (case fault of
        Some e \<Rightarrow> QueryError e
      | None \<Rightarrow> (case endpoint_settings db i of None \<Rightarrow> NoRows | Some r \<Rightarrow> Row (limits r)))"

text \<open>
  The verifier scans the algorithm column into a Go string, which fails on NULL; the
  settings handler writes NULL there when a request sets limits without an algorithm.
\<close>

definition query_hmac ::
  "database \<Rightarrow> string option \<Rightarrow> uuid \<Rightarrow> (string option \<times> string) query_result" where
  "query_hmac db fault i =
     (case fault of
        Some e \<Rightarrow> QueryError e
      | None \<Rightarrow> (case endpoint_settings db i of
                   None \<Rightarrow> NoRows
                 | Some r \<Rightarrow>
                     (case hmac_algorithm r of
                        None \<Rightarrow> QueryError ''cannot scan NULL into *string''
                      | Some algorithm \<Rightarrow> Row (hmac_secret r, algorithm))))"

definition max_body_size :: "platform \<Rightarrow> int" where
  "max_body_size pf = (case app_max_body_size pf of None \<Rightarrow> 10 * 1024 * 1024 | Some v \<Rightarrow> v)"

text \<open>
  \<^verbatim>\<open>io.ReadAll(io.LimitReader(r.Body, n))\<close>: a limit that is not positive reads nothing;
  a stream that holds at least \<open>n\<close> bytes is cut after \<open>n\<close> without seeing its end;
  a shorter stream is read to its end, which is an error when the stream breaks.
\<close>

definition read_limited :: "string \<Rightarrow> bool \<Rightarrow> int \<Rightarrow> string option" where
  "read_limited stream broken n =
     (if n \<le> 0 then Some []
      else if int (length stream) \<ge> n then Some (take (nat n) stream)
      else if broken then None
      else Some stream)"

definition digit_char :: "nat \<Rightarrow> char" where
  "digit_char d = char_of (48 + d)"

function show_nat :: "nat \<Rightarrow> string" where
  "show_nat n = (if n < 10 then [digit_char n] else show_nat (n div 10) @ [digit_char (n mod 10)])"
  by pat_completeness auto
termination
  by (relation "measure (\<lambda>n. n)") auto

declare show_nat.simps [simp del]

definition show_int :: "int \<Rightarrow> string" where
  "show_int i = (if i < 0 then CHR ''-'' # show_nat (nat (- i)) else show_nat (nat i))"

fun rate_error_text :: "rate_error \<Rightarrow> string" where
  "rate_error_text (RateLimitExceeded l unit) =
     ''rate limit exceeded: '' @ show_int l @ '' requests per '' @ unit"

definition path_slug :: "string \<Rightarrow> string" where
  "path_slug p = takeWhile (\<lambda>c. c \<noteq> CHR ''/'') (TrimPrefix p ''/e/'')"

definition content_type_of :: "header \<Rightarrow> string option" where
  "content_type_of h =
     (if Header_Get h ''Content-Type'' \<noteq> [] then Some (Header_Get h ''Content-Type'') else None)"

definition CaptureHandler ::
  "platform \<Rightarrow> database \<Rightarrow> inbound \<Rightarrow> server \<Rightarrow> response \<times> server" where
  "CaptureHandler pf db r srv =
     (let slug = path_slug (url_path r)
      in if slug = [] then (\<lparr>code = 400, message = ''Invalid endpoint''\<rparr>, srv)
      else
      (case query_endpoint db (endpoint_query_fault r) slug of
         NoRows \<Rightarrow> (\<lparr>code = 404, message = ''Endpoint not found''\<rparr>, srv)
       | QueryError e \<Rightarrow> (\<lparr>code = 500, message = ''Database error: '' @ e\<rparr>, srv)
       | Row endpointID \<Rightarrow>
      (let maxBodySize = max_body_size pf
       in case read_limited (body_stream r) (body_broken r) (int64_wrap (maxBodySize + 1)) of
            None \<Rightarrow> (\<lparr>code = 500, message = ''Failed to read request body''\<rparr>, srv)
          | Some body \<Rightarrow>
       if int (length body) > maxBodySize
         then (\<lparr>code = 413, message = ''Request body too large''\<rparr>, srv)
       else
       (case CheckRateLimit (query_rate_limits db (rate_query_fault r) endpointID)
               (uuid_String endpointID) (clock r) (limiter srv) of
          ((allowed, rerr), lims') \<Rightarrow>
       (let srv1 = srv\<lparr>limiter := lims'\<rparr>
        in case rerr of
             Some e \<Rightarrow> (\<lparr>code = 429, message = rate_error_text e\<rparr>, srv1)
           | None \<Rightarrow>
        if \<not> allowed then (\<lparr>code = 429, message = ''Rate limit exceeded''\<rparr>, srv1)
        else
        (case VerifySignature (hmac pf) (query_hmac db (hmac_query_fault r) endpointID)
                (headers r) body of
           (verified, verr) \<Rightarrow>
         (case verr of
            Some e \<Rightarrow>
              (\<lparr>code = 500,
                message = ''Signature verification error: '' @ verify_error_text e\<rparr>, srv1)
          | None \<Rightarrow>
         if \<not> verified then (\<lparr>code = 401, message = ''Invalid signature''\<rparr>, srv1)
         else
         (let requestID = new_uuid r;
              bodyStr = capture_body_text body
          in case insert_fault r of
               Some e \<Rightarrow>
                 (\<lparr>code = 500, message = ''Failed to save request: '' @ e\<rparr>, srv1)
             | None \<Rightarrow>
                 (\<lparr>code = 200, message = ''OK''\<rparr>,
                  srv1\<lparr>requests := requests srv1 @
                          [\<lparr>req_id = requestID, req_endpoint_id = endpointID,
                            req_method = http_method r, req_path = url_path r,
                            req_headers = headers_json r,
                            req_query_params = query_params_json r,
                            req_ip = client_ip r, req_body = bodyStr,
                            req_body_size = int (length body),
                            req_content_type = content_type_of (headers r)\<rparr>],
                        bus := publishRequestEvent (marshal_event pf) endpointID requestID
                                 (http_method r) (bus srv1)\<rparr>)))))))))"


definition fresh_server :: server where
  "fresh_server = \<lparr>requests = [], limiter = Map.empty, bus = empty_manager\<rparr>"


section \<open>Transformation chain\<close>

text \<open>
  A row of the transformations table; of the scanned columns only the language may be
  NULL. The query of \<^verbatim>\<open>ApplyTransformations\<close> selects the enabled rows of the
  endpoint whose \<^verbatim>\<open>apply_to\<close> is the selector or \<^verbatim>\<open>both\<close>, ordered by creation time
  (rows created at the same instant stay in table order). The script engines are the
  library's: \<^verbatim>\<open>ExecuteTransformation\<close> is a function from the language, the script and
  the input to an error or a value.
\<close>

record transformation =
  t_id :: uuid
  t_endpoint_id :: uuid
  t_name :: string
  t_language :: "string option"
  t_script :: string
  t_apply_to :: string
  t_enabled :: bool
  t_created_at :: time

type_synonym 'v executor = "string \<Rightarrow> string \<Rightarrow> 'v \<Rightarrow> string + 'v"

definition selected :: "uuid \<Rightarrow> string \<Rightarrow> transformation \<Rightarrow> bool" where
  "selected endpointID applyTo t \<longleftrightarrow>
     t_endpoint_id t = endpointID \<and> t_enabled t \<and>
     (t_apply_to t = applyTo \<or> t_apply_to t = ''both'')"

definition query_transformations ::
  "transformation list \<Rightarrow> uuid \<Rightarrow> string \<Rightarrow> transformation list" where
  "query_transformations table endpointID applyTo =
     sort_key t_created_at (filter (selected endpointID applyTo) table)"

text \<open>
  The loop over the rows. A NULL language cannot be scanned into a Go string: the
  driver's \<^verbatim>\<open>Scan\<close> then closes the rows, the \<^verbatim>\<open>continue\<close> of the loop body finds
  \<^verbatim>\<open>rows.Next()\<close> false, and the loop ends with the value reached so far. A
  transformation whose execution errors leaves the value as it is and the loop goes on.
\<close>

fun apply_rows :: "'v executor \<Rightarrow> transformation list \<Rightarrow> 'v \<Rightarrow> 'v" where
  "apply_rows exec [] result = result"
| "apply_rows exec (t # ts) result =
     (case t_language t of
        None \<Rightarrow> result
      | Some language \<Rightarrow>
          (case exec language (t_script t) result of
             Inl err \<Rightarrow> apply_rows exec ts result
           | Inr transformed \<Rightarrow> apply_rows exec ts transformed))"

text \<open>
  What can go wrong with the fetch: \<^verbatim>\<open>Query\<close> itself returns an error, or it returns
  the rows and their stream breaks after \<open>k\<close> of them, on which \<^verbatim>\<open>rows.Next()\<close> is
  false; the function never reads \<^verbatim>\<open>rows.Err()\<close>, so a broken stream ends the loop
  like the end of the rows.
\<close>

datatype fetch_fault = QueryFails string | RowsBreak nat string

definition ApplyTransformations ::
  "'v executor \<Rightarrow> transformation list \<Rightarrow> fetch_fault option \<Rightarrow> uuid \<Rightarrow> string \<Rightarrow> 'v \<Rightarrow>
     string + 'v" where
  "ApplyTransformations exec table fault endpointID applyTo data =
     (case fault of
        Some (QueryFails e) \<Rightarrow> Inl (''failed to fetch transformations: '' @ e)
      | Some (RowsBreak k e) \<Rightarrow>
          Inr (apply_rows exec (take k (query_transformations table endpointID applyTo)) data)
      | None \<Rightarrow> Inr (apply_rows exec (query_transformations table endpointID applyTo) data))"

text \<open>
  The specification's fold: one transformation applied to the current value gives its
  output, or leaves the value as it is when the transformation errors, be it in the
  scan of its row or in its execution.
\<close>

definition run_one :: "'v executor \<Rightarrow> transformation \<Rightarrow> 'v \<Rightarrow> string + 'v" where
  "run_one exec t v =
     (case t_language t of
        None \<Rightarrow> Inl ''cannot scan NULL into *string''
      | Some language \<Rightarrow> exec language (t_script t) v)"

definition skip_on_error :: "'v executor \<Rightarrow> 'v \<Rightarrow> transformation \<Rightarrow> 'v" where
  "skip_on_error exec v t = (case run_one exec t v of Inl err \<Rightarrow> v | Inr w \<Rightarrow> w)"

section \<open>Concrete endpoints and requests\<close>

text \<open>
  The data of the specification's scenarios: one endpoint with slug \<open>fh_abc12345\<close>,
  plain, with an HMAC secret, or with a rate limit; and the capture
  \<^verbatim>\<open>POST /e/fh_abc12345\<close> with the 7-byte JSON body of the basic scenario. The keyed
  hash of the examples is a stand-in that only serves to evaluate the verifier; every
  theorem below holds for any function in its place.
\<close>

definition demo_slug :: string where
  "demo_slug = ''fh_abc12345''"

definition demo_id :: uuid where
  "demo_id = UUID ''0123456789abcdef''"

definition no_limits :: rate_limits where
  "no_limits = \<lparr>rate_limit_per_minute = None, rate_limit_per_hour = None,
                 rate_limit_per_day = None\<rparr>"

definition plain_db :: database where
  "plain_db = \<lparr>endpoints = [demo_slug \<mapsto> demo_id], endpoint_settings = Map.empty\<rparr>"

definition signed_db :: database where
  "signed_db =
     \<lparr>endpoints = [demo_slug \<mapsto> demo_id],
      endpoint_settings =
        [demo_id \<mapsto> \<lparr>hmac_secret = Some ''s3cr'', hmac_algorithm = Some ''sha256'',
                       limits = no_limits\<rparr>]\<rparr>"

definition limited_db :: database where
  "limited_db =
     \<lparr>endpoints = [demo_slug \<mapsto> demo_id],
      endpoint_settings =
        [demo_id \<mapsto> \<lparr>hmac_secret = None, hmac_algorithm = Some ''sha256'',
                       limits = \<lparr>rate_limit_per_minute = Some 3, rate_limit_per_hour = None,
                                 rate_limit_per_day = None\<rparr>\<rparr>]\<rparr>"

definition limit_only_db :: database where
  "limit_only_db =
     \<lparr>endpoints = [demo_slug \<mapsto> demo_id],
      endpoint_settings =
        [demo_id \<mapsto> \<lparr>hmac_secret = None, hmac_algorithm = None,
                       limits = \<lparr>rate_limit_per_minute = Some 3, rate_limit_per_hour = None,
                                 rate_limit_per_day = None\<rparr>\<rparr>]\<rparr>"

definition demo_mac :: hmac_fun where
  "demo_mac alg key msg = rev (key @ msg)"

definition demo_marshal :: "sse_event \<Rightarrow> string option" where
  "demo_marshal e = Some (''event '' @ ev_method e)"

definition demo_platform :: platform where
  "demo_platform = \<lparr>hmac = demo_mac, marshal_event = demo_marshal, app_max_body_size = None\<rparr>"

definition tiny_platform :: platform where
  "tiny_platform = \<lparr>hmac = demo_mac, marshal_event = demo_marshal, app_max_body_size = Some 7\<rparr>"

definition demo_body :: string where
  "demo_body = [CHR ''{'', CHR 0x22, CHR ''v'', CHR 0x22, CHR '':'', CHR ''1'', CHR ''}'']"

definition demo_request :: inbound where
  "demo_request =
     \<lparr>url_path = ''/e/fh_abc12345'', http_method = ''POST'',
      headers = [''Content-Type'' \<mapsto> [''application/json'']],
      body_stream = demo_body, body_broken = False,
      headers_json = ''{}'', query_params_json = ''{}'',
      client_ip = Some ''192.168.1.1'', clock = 0,
      new_uuid = UUID ''fedcba9876543210'',
      endpoint_query_fault = None, rate_query_fault = None, hmac_query_fault = None,
      insert_fault = None\<rparr>"

definition tampered_request :: inbound where
  "tampered_request =
     demo_request\<lparr>headers := [''X-Signature'' \<mapsto> [''sha256=deadbeef'']]\<rparr>"

definition binary_request :: inbound where
  "binary_request = demo_request\<lparr>body_stream := [CHR 0xFF]\<rparr>"

definition subscribed_server :: server where
  "subscribed_server =
     \<lparr>requests = [], limiter = Map.empty,
      bus = \<lparr>connections = [demo_slug \<mapsto> [0]], channels = (\<lambda>c. [])\<rparr>\<rparr>"

definition oversized_request :: inbound where
  "oversized_request = demo_request\<lparr>body_stream := demo_body @ ''!''\<rparr>"







definition day_calls :: "limiter_call list" where
  "day_calls =
     map (\<lambda>t. (demo_slug, t, only_day_limit 2)) [0, 2 * hour, 4 * hour]"






section \<open>Properties of the forwarder\<close>

lemma fmul_Fin_not_NaN: "b \<noteq> 0 \<Longrightarrow> y \<noteq> NaN \<Longrightarrow> fmul rnd (Fin b) y \<noteq> NaN"
  by (cases y) (auto simp: round_to_def split: option.splits)

lemma round_to_not_NaN: "round_to rnd q \<noteq> NaN"
  by (simp add: round_to_def split: option.splits)

lemma clamp_finite:
  assumes "x \<noteq> NaN"
  shows "\<exists>d. (if fless (if fless (Fin mx) x then Fin mx else x) (Fin mn) then Fin mn
              else (if fless (Fin mx) x then Fin mx else x)) = Fin d \<and>
             (mn \<le> mx \<longrightarrow> mn \<le> d \<and> d \<le> mx) \<and> (mx < mn \<longrightarrow> d = mn)"
  using assms by (cases x) auto

lemma clamp_Fin:
  "(if fless (if fless (Fin mx) (Fin r) then Fin mx else Fin r) (Fin mn) then Fin mn
    else (if fless (Fin mx) (Fin r) then Fin mx else Fin r)) = Fin (max mn (min mx r))"
  by (simp add: max_def min_def)

lemma delay_ms_unfold:
  "delay_ms rnd n config =
     (if fless (if fless (Fin (eff_max_ms config)) (raw_float rnd n config)
                  then Fin (eff_max_ms config) else raw_float rnd n config)
            (Fin (eff_min_ms config))
        then Fin (eff_min_ms config)
      else (if fless (Fin (eff_max_ms config)) (raw_float rnd n config)
              then Fin (eff_max_ms config) else raw_float rnd n config))"
  unfolding delay_ms_def Let_def eff_min_ms_def eff_max_ms_def eff_base_def raw_float_def
  by (simp only: if_distrib[of "\<lambda>x. fless _ x"] if_distrib[of "\<lambda>x. fless x _"] cong: if_cong)

lemma eff_nonzero: "eff_min_ms config \<noteq> 0" "eff_base config \<noteq> 0"
  by (simp_all add: eff_min_ms_def eff_base_def)

lemma raw_float_not_NaN: "raw_float rnd n config \<noteq> NaN"
proof -
  have a: "fmul rnd (Fin (eff_min_ms config)) y \<noteq> NaN" if "y \<noteq> NaN" for y
    using that eff_nonzero(1) by (rule fmul_Fin_not_NaN[rotated])
  have b: "fmul rnd (Fin (eff_base config)) y \<noteq> NaN" if "y \<noteq> NaN" for y
    using that eff_nonzero(2) by (rule fmul_Fin_not_NaN[rotated])
  show ?thesis
    unfolding raw_float_def float64_of_int_def
    by (simp add: a b round_to_not_NaN)
qed

lemma int64_wrap_id: "- (2 ^ 63) \<le> x \<Longrightarrow> x < 2 ^ 63 \<Longrightarrow> int64_wrap x = x"
  by (simp add: int64_wrap_def)

lemma raw_float_exact:
  assumes "schedule_exact rnd n config" and "- (2 ^ 63) < n" and "n < 2 ^ 63"
  shows "raw_float rnd n config = Fin (raw_delay n config)"
proof -
  have w: "int64_wrap (n - 1) = n - 1" using assms(2,3) by (intro int64_wrap_id) simp_all
  show ?thesis
    using assms(1)
    by (simp add: raw_float_def raw_delay_def schedule_exact_def float64_of_int_def round_to_def w
          mult.assoc split: if_splits)
qed


lemma trunc_zero_of_int: "trunc_zero (of_int k) = k"
  by (simp add: trunc_zero_def)

text \<open>
  Claim C7, as the code has it. For every attempt number and backoff configuration,
  with absent or zero fields replaced by base 2, min_ms 1000 and max_ms 30000, the
  float64 delay is finite; it is the computed delay first capped at \<open>max_ms\<close> and then
  raised to \<open>min_ms\<close>, so it lies in \<open>[min_ms, max_ms]\<close> whenever
  \<open>min_ms \<le> max_ms\<close> and is \<open>min_ms\<close> when \<open>min_ms\<close> exceeds \<open>max_ms\<close>. Where the
  products of the schedule are exact in float64 the computed delay is
  \<open>min_ms * base * (n - 1)\<close> for type exponential, \<open>min_ms * n\<close> for linear and
  \<open>min_ms\<close> for any other type, and the exponential delay at \<open>n = 1\<close> is \<open>min_ms\<close>
  whenever \<open>min_ms\<close> is not negative. The returned duration is the delay truncated
  towards zero to whole milliseconds: exactly the delay when it is a whole number of
  at most 9223372036854 ms, so that the nanosecond count does not wrap.
\<close>

theorem calculateBackoff_schedule:
  "(\<exists>d. delay_ms rnd n config = Fin d \<and>
        (eff_min_ms config \<le> eff_max_ms config \<longrightarrow>
           eff_min_ms config \<le> d \<and> d \<le> eff_max_ms config) \<and>
        (eff_max_ms config < eff_min_ms config \<longrightarrow> d = eff_min_ms config) \<and>
        (schedule_exact rnd n config \<and> - (2 ^ 63) < n \<and> n < 2 ^ 63 \<longrightarrow>
           d = max (eff_min_ms config) (min (eff_max_ms config) (raw_delay n config))) \<and>
        (as_string (config ''type'') = ''exponential'' \<and> n = 1 \<and> rnd 0 = Some 0 \<and>
         0 \<le> eff_min_ms config \<longrightarrow> d = eff_min_ms config) \<and>
        calculateBackoff rnd n config =
          (if - (2 ^ 63) \<le> trunc_zero d \<and> trunc_zero d < 2 ^ 63
             then Some (int64_wrap (trunc_zero d * 1000000)) else None) \<and>
        (\<forall>k. d = of_int k \<and> - 9223372036854 \<le> k \<and> k \<le> 9223372036854 \<longrightarrow>
             calculateBackoff rnd n config = Some (k * 1000000))) \<and>
   (config ''base'' = None \<or> config ''base'' = Some (JNum 0) \<longrightarrow> eff_base config = 2) \<and>
   (config ''min_ms'' = None \<or> config ''min_ms'' = Some (JNum 0) \<longrightarrow> eff_min_ms config = 1000) \<and>
   (config ''max_ms'' = None \<or> config ''max_ms'' = Some (JNum 0) \<longrightarrow> eff_max_ms config = 30000)"
proof (intro conjI)
  let ?mn = "eff_min_ms config" and ?mx = "eff_max_ms config"
  from clamp_finite[OF raw_float_not_NaN, of ?mx rnd n config ?mn]
  obtain d where d: "delay_ms rnd n config = Fin d"
    and d1: "?mn \<le> ?mx \<longrightarrow> ?mn \<le> d \<and> d \<le> ?mx" and d2: "?mx < ?mn \<longrightarrow> d = ?mn"
    unfolding delay_ms_unfold by blast
  have d3: "d = max ?mn (min ?mx (raw_delay n config))"
    if "schedule_exact rnd n config \<and> - (2 ^ 63) < n \<and> n < 2 ^ 63"
  proof -
    from that have "raw_float rnd n config = Fin (raw_delay n config)"
      by (intro raw_float_exact) simp_all
    then have "delay_ms rnd n config =
                 Fin (max ?mn (min ?mx (raw_delay n config)))"
      by (simp only: delay_ms_unfold clamp_Fin)
    with d show ?thesis by simp
  qed
  have d4: "d = ?mn"
    if h: "as_string (config ''type'') = ''exponential'' \<and> n = 1 \<and> rnd 0 = Some 0 \<and> 0 \<le> ?mn"
  proof -
    from h have "schedule_exact rnd n config" by (simp add: schedule_exact_def)
    with h have "d = max ?mn (min ?mx (raw_delay n config))" by (intro d3) simp
    with h show ?thesis by (simp add: raw_delay_def max_def min_def)
  qed
  have c: "calculateBackoff rnd n config =
          (if - (2 ^ 63) \<le> trunc_zero d \<and> trunc_zero d < 2 ^ 63
             then Some (int64_wrap (trunc_zero d * 1000000)) else None)"
    by (simp add: calculateBackoff_def d int64_of_float64_def)
  have c2: "calculateBackoff rnd n config = Some (k * 1000000)"
    if k: "d = of_int k \<and> - 9223372036854 \<le> k \<and> k \<le> 9223372036854" for k
  proof -
    from k have t: "trunc_zero d = k" by (simp add: trunc_zero_of_int)
    from k have "int64_wrap (k * 1000000) = k * 1000000"
      by (intro int64_wrap_id) simp_all
    with k show ?thesis unfolding c t by simp
  qed
  show "\<exists>d. delay_ms rnd n config = Fin d \<and>
        (eff_min_ms config \<le> eff_max_ms config \<longrightarrow>
           eff_min_ms config \<le> d \<and> d \<le> eff_max_ms config) \<and>
        (eff_max_ms config < eff_min_ms config \<longrightarrow> d = eff_min_ms config) \<and>
        (schedule_exact rnd n config \<and> - (2 ^ 63) < n \<and> n < 2 ^ 63 \<longrightarrow>
           d = max (eff_min_ms config) (min (eff_max_ms config) (raw_delay n config))) \<and>
        (as_string (config ''type'') = ''exponential'' \<and> n = 1 \<and> rnd 0 = Some 0 \<and>
         0 \<le> eff_min_ms config \<longrightarrow> d = eff_min_ms config) \<and>
        calculateBackoff rnd n config =
          (if - (2 ^ 63) \<le> trunc_zero d \<and> trunc_zero d < 2 ^ 63
             then Some (int64_wrap (trunc_zero d * 1000000)) else None) \<and>
        (\<forall>k. d = of_int k \<and> - 9223372036854 \<le> k \<and> k \<le> 9223372036854 \<longrightarrow>
             calculateBackoff rnd n config = Some (k * 1000000))"
    using d d1 d2 d3 d4 c c2 by (intro exI[of _ d]) blast
  show "config ''base'' = None \<or> config ''base'' = Some (JNum 0) \<longrightarrow> eff_base config = 2"
    by (auto simp: eff_base_def as_float64_def)
  show "config ''min_ms'' = None \<or> config ''min_ms'' = Some (JNum 0) \<longrightarrow> eff_min_ms config = 1000"
    by (auto simp: eff_min_ms_def as_float64_def)
  show "config ''max_ms'' = None \<or> config ''max_ms'' = Some (JNum 0) \<longrightarrow> eff_max_ms config = 30000"
    by (auto simp: eff_max_ms_def as_float64_def)
qed


lemma floor_half: "\<lfloor>(1::rat) / 2\<rfloor> = 0"
  by (simp add: floor_eq_iff)

lemmas backoff_eval =
  delay_ms_def calculateBackoff_def Let_def as_string_def as_float64_def round_to_def
  float64_of_int_def int64_of_float64_def trunc_zero_def int64_wrap_def no_rounding_def
  eff_min_ms_def eff_max_ms_def eff_base_def raw_delay_def schedule_exact_def floor_half

lemmas backoff_configs =
  linear_config_def inverted_config_def exponential_config_def negative_min_config_def
  half_ms_config_def

text \<open>
  The schedule at a linear rule with \<open>min_ms = 10\<close>, \<open>max_ms = 100\<close> and no base:
  attempt 2 waits 20 ms, attempt 50 is capped at 100 ms. At a rule with \<open>min_ms = 5000\<close>
  above \<open>max_ms = 1000\<close> every delay is 5000 ms. At an exponential rule with no other
  field the defaults apply: attempt 1 waits 1000 ms, attempt 2 waits 2000 ms, attempt 40
  is capped at 30000 ms.
\<close>

theorem calculateBackoff_schedule_witness:
  "eff_min_ms linear_config \<le> eff_max_ms linear_config \<and>
   linear_config ''base'' = None \<and> eff_base linear_config = 2 \<and>
   schedule_exact no_rounding 2 linear_config \<and>
   delay_ms no_rounding 2 linear_config = Fin 20 \<and>
   calculateBackoff no_rounding 2 linear_config = Some 20000000 \<and>
   delay_ms no_rounding 50 linear_config = Fin 100 \<and>
   eff_max_ms inverted_config < eff_min_ms inverted_config \<and>
   delay_ms no_rounding 3 inverted_config = Fin 5000 \<and>
   as_string (exponential_config ''type'') = ''exponential'' \<and>
   exponential_config ''min_ms'' = None \<and> exponential_config ''max_ms'' = None \<and>
   eff_min_ms exponential_config = 1000 \<and> eff_max_ms exponential_config = 30000 \<and>
   no_rounding 0 = Some 0 \<and>
   delay_ms no_rounding 1 exponential_config = Fin 1000 \<and>
   delay_ms no_rounding 2 exponential_config = Fin 2000 \<and>
   calculateBackoff no_rounding 2 exponential_config = Some 2000000000 \<and>
   delay_ms no_rounding 40 exponential_config = Fin 30000"
proof -
  have f: "eff_min_ms linear_config = 10" "eff_max_ms linear_config = 100"
    "eff_base linear_config = 2" "linear_config ''base'' = None"
    "eff_min_ms inverted_config = 5000" "eff_max_ms inverted_config = 1000"
    "as_string (exponential_config ''type'') = ''exponential''"
    "exponential_config ''min_ms'' = None" "exponential_config ''max_ms'' = None"
    "exponential_config ''base'' = None" "no_rounding 0 = Some 0"
    by (simp_all add: backoff_eval backoff_configs)
  have x: "schedule_exact no_rounding 2 linear_config" "schedule_exact no_rounding 50 linear_config"
    "schedule_exact no_rounding 2 exponential_config"
    "schedule_exact no_rounding 40 exponential_config"
    by (simp_all add: schedule_exact_def no_rounding_def)
  have r: "raw_delay 2 linear_config = 20" "raw_delay 50 linear_config = 500"
    by (simp_all add: backoff_eval backoff_configs)
  from calculateBackoff_schedule [of no_rounding 2 linear_config] x f r
  have a: "delay_ms no_rounding 2 linear_config = Fin 20 \<and>
           calculateBackoff no_rounding 2 linear_config = Some 20000000"
    by (auto simp: trunc_zero_def int64_wrap_def)
  from calculateBackoff_schedule [of no_rounding 50 linear_config] x f r
  have b: "delay_ms no_rounding 50 linear_config = Fin 100"
    by (auto simp: trunc_zero_def int64_wrap_def)
  from calculateBackoff_schedule [of no_rounding 3 inverted_config] f
  have c: "delay_ms no_rounding 3 inverted_config = Fin 5000"
    by (auto simp: trunc_zero_def int64_wrap_def)
  from calculateBackoff_schedule [of no_rounding 1 exponential_config] f
  have d: "eff_min_ms exponential_config = 1000" "eff_max_ms exponential_config = 30000"
    "eff_base exponential_config = 2"
    by simp_all
  have r2: "raw_delay 2 exponential_config = 2000" "raw_delay 40 exponential_config = 78000"
    by (simp_all add: backoff_eval backoff_configs)
  from calculateBackoff_schedule [of no_rounding 1 exponential_config] f d
  have e1: "delay_ms no_rounding 1 exponential_config = Fin 1000"
    by (auto simp: trunc_zero_def int64_wrap_def)
  from calculateBackoff_schedule [of no_rounding 2 exponential_config] x f d r2
  have e2: "delay_ms no_rounding 2 exponential_config = Fin 2000 \<and>
            calculateBackoff no_rounding 2 exponential_config = Some 2000000000"
    by (auto simp: trunc_zero_def int64_wrap_def)
  from calculateBackoff_schedule [of no_rounding 40 exponential_config] x f d r2
  have e3: "delay_ms no_rounding 40 exponential_config = Fin 30000"
    by (auto simp: trunc_zero_def int64_wrap_def)
  have o: "eff_min_ms linear_config \<le> eff_max_ms linear_config"
    "eff_max_ms inverted_config < eff_min_ms inverted_config"
    by (simp_all add: f)
  show ?thesis using f x a b c d e1 e2 e3 o by blast
qed

text \<open>
  Against C7 as stated: with \<open>min_ms = 5000\<close> above \<open>max_ms = 1000\<close> the computed
  delay 5000 exceeds \<open>max_ms\<close> and is not overridden by it; with a negative
  \<open>min_ms\<close> the exponential delay at \<open>n = 1\<close> is 0, not \<open>min_ms\<close>; and with
  \<open>min_ms\<close> of half a millisecond the returned duration is 0, below \<open>min_ms\<close>.
\<close>

theorem calculateBackoff_clamp_counterexample:
  "raw_delay 1 inverted_config = 5000 \<and> eff_max_ms inverted_config = 1000 \<and>
   delay_ms no_rounding 1 inverted_config = Fin 5000 \<and>
   calculateBackoff no_rounding 1 inverted_config = Some 5000000000 \<and>
   as_string (negative_min_config ''type'') = ''exponential'' \<and>
   eff_min_ms negative_min_config = - 100 \<and>
   calculateBackoff no_rounding 1 negative_min_config = Some 0 \<and>
   eff_min_ms half_ms_config = 1 / 2 \<and> eff_max_ms half_ms_config = 30000 \<and>
   delay_ms no_rounding 1 half_ms_config = Fin (1 / 2) \<and>
   calculateBackoff no_rounding 1 half_ms_config = Some 0"
  by (simp add: backoff_eval backoff_configs)


lemma executeForward_calls: "calls (snd (executeForward env a s)) = calls s @ [a]"
  by (simp add: executeForward_def recordForwardAttempt_def Let_def split: attempt_result.splits)

lemma executeForward_sleeps: "sleeps (snd (executeForward env a s)) = sleeps s"
  by (simp add: executeForward_def recordForwardAttempt_def Let_def split: attempt_result.splits)

lemma executeForward_success: "fst (executeForward env a s) = attempt_succeeds env a"
  by (auto simp add: executeForward_def attempt_succeeds_def Let_def split: attempt_result.splits)

lemma executeForward_rows:
  "map attempt_number (rows (snd (executeForward env a s))) =
     map attempt_number (rows s) @ (if insert_ok env a then [a] else [])"
  by (simp add: executeForward_def recordForwardAttempt_def Let_def split: attempt_result.splits)

lemma upto_single: "[a..a] = [a::int]"
  by (simp add: upto_rec1)

lemma upto_empty_pred: "[a..a - 1] = ([]::int list)"
  by simp

lemma retry_loop_shape:
  "a \<le> M \<Longrightarrow> \<exists>n. loop_shape env config M a s (retry_loop env config M a s) n"
proof (induction env config M a s rule: retry_loop.induct)
  case (1 env config M a s)
  obtain ok s1 where ex: "executeForward env a s = (ok, s1)" by (cases "executeForward env a s")
  have ok: "ok = attempt_succeeds env a" using executeForward_success[of env a s] ex by simp
  have c1: "calls s1 = calls s @ [a]" using executeForward_calls[of env a s] ex by simp
  have r1: "map attempt_number (rows s1) = map attempt_number (rows s) @ (if insert_ok env a then [a] else [])"
    using executeForward_rows[of env a s] ex by simp
  have sl1: "sleeps s1 = sleeps s" using executeForward_sleeps[of env a s] ex by simp
  show ?case
  proof (cases ok)
    case True
    have res: "retry_loop env config M a s = s1"
      using 1(2) ex True by (subst retry_loop.simps) simp
    have "loop_shape env config M a s s1 a"
      unfolding loop_shape_def using 1(2) True ok c1 r1 sl1
      by (auto simp add: upto_single)
    then show ?thesis unfolding res by blast
  next
    case False
    show ?thesis
    proof (cases "a < M")
      case lt: True
      let ?s2 = "s1\<lparr>sleeps := sleeps s1 @ [calculateBackoff (round64 env) a config]\<rparr>"
      have res: "retry_loop env config M a s = retry_loop env config M (a + 1) ?s2"
        using 1(2) ex False lt by (subst retry_loop.simps) simp
      from lt have le: "a + 1 \<le> M" by simp
      from 1(1)[OF 1(2) ex[symmetric] False le] lt
      obtain n where n: "loop_shape env config M (a + 1) ?s2 (retry_loop env config M (a + 1) ?s2) n"
        by auto
      let ?r = "retry_loop env config M (a + 1) ?s2"
      let ?e = "if attempt_succeeds env n then n - 1 else M - 1"
      from n have n1: "a + 1 \<le> n" and n2: "n \<le> M"
        and n3: "calls ?r = calls ?s2 @ [a + 1..n]"
        and n4: "map attempt_number (rows ?r) = map attempt_number (rows ?s2) @ filter (insert_ok env) [a + 1..n]"
        and n5: "\<forall>k. a + 1 \<le> k \<and> k < n \<longrightarrow> \<not> attempt_succeeds env k"
        and n6: "n < M \<longrightarrow> attempt_succeeds env n"
        and n7: "sleeps ?r = sleeps ?s2 @ map (\<lambda>k. calculateBackoff (round64 env) k config) [a + 1..?e]"
        unfolding loop_shape_def by blast+
      have an: "a \<le> n" using n1 by simp
      have up: "[a..n] = a # [a + 1..n]" using an by (rule upto_rec1)
      have nf: "\<forall>k. a \<le> k \<and> k < n \<longrightarrow> \<not> attempt_succeeds env k"
      proof (intro allI impI)
        fix k assume "a \<le> k \<and> k < n"
        then show "\<not> attempt_succeeds env k"
          using n5 False ok by (cases "k = a") auto
      qed
      have "a \<le> ?e" using n1 n2 lt by simp
      then have up2: "[a..?e] = a # [a + 1..?e]" by (rule upto_rec1)
      have "loop_shape env config M a s ?r n"
        unfolding loop_shape_def
      proof (intro conjI)
        show "a \<le> n" by (rule an)
        show "n \<le> M" by (rule n2)
        show "calls ?r = calls s @ [a..n]" by (simp add: n3 up c1)
        show "map attempt_number (rows ?r) =
                map attempt_number (rows s) @ filter (insert_ok env) [a..n]"
          by (simp add: n4 up r1)
        show "\<forall>k. a \<le> k \<and> k < n \<longrightarrow> \<not> attempt_succeeds env k" by (rule nf)
        show "n < M \<longrightarrow> attempt_succeeds env n" by (rule n6)
        show "sleeps ?r = sleeps s @ map (\<lambda>k. calculateBackoff (round64 env) k config) [a..?e]"
          unfolding n7 up2 by (simp add: sl1)
      qed
      then show ?thesis unfolding res by blast
    next
      case ge: False
      then have aM: "a = M" using 1(2) by simp
      have res: "retry_loop env config M a s = retry_loop env config M (a + 1) s1"
        using 1(2) ex False ge by (subst retry_loop.simps) simp
      have res2: "retry_loop env config M (a + 1) s1 = s1"
        using aM by (subst retry_loop.simps) simp
      have "loop_shape env config M a s s1 a"
        unfolding loop_shape_def using aM False ok c1 r1 sl1
        by (auto simp add: upto_single)
      then show ?thesis unfolding res res2 by blast
    qed
  qed
qed


text \<open>
  Claim C6, as the code has it. For every forwarding task the attempt numbers handed to
  the recorder are \<open>1, 2, \<dots>, n\<close> without gaps, where \<open>n\<close> is at most
  \<open>max 1 max_retries\<close> (the loop guard raises a \<open>max_retries\<close> below 1 to 1); the rows
  recorded are those of them whose insert succeeded, all of them when the store accepts
  every insert. No attempt before the last one succeeded, so once an attempt succeeds
  no higher number follows; the loop stops early only at a success. With
  \<open>max_retries = 1\<close> exactly one attempt is made and no backoff sleep happens.
\<close>

theorem forwardRequest_attempts:
  "\<exists>n. 1 \<le> n \<and> n \<le> max 1 maxRetries \<and>
       calls (forwardRequest env config maxRetries) = [1..n] \<and>
       map attempt_number (rows (forwardRequest env config maxRetries)) =
         filter (insert_ok env) [1..n] \<and>
       ((\<forall>k. insert_ok env k) \<longrightarrow>
          map attempt_number (rows (forwardRequest env config maxRetries)) = [1..n]) \<and>
       (\<forall>k. 1 \<le> k \<and> k < n \<longrightarrow> \<not> attempt_succeeds env k) \<and>
       (n < max 1 maxRetries \<longrightarrow> attempt_succeeds env n) \<and>
       (maxRetries = 1 \<longrightarrow> n = 1 \<and> sleeps (forwardRequest env config maxRetries) = [])"
proof -
  let ?M = "max 1 maxRetries"
  let ?s0 = "\<lparr>calls = [], rows = [], sleeps = []\<rparr>"
  have fr: "forwardRequest env config maxRetries = retry_loop env config ?M 1 ?s0"
    by (simp add: forwardRequest_def max_def)
  have "1 \<le> ?M" by simp
  from retry_loop_shape[OF this, of env config ?s0]
  obtain n where n: "loop_shape env config ?M 1 ?s0 (retry_loop env config ?M 1 ?s0) n" by blast
  let ?r = "forwardRequest env config maxRetries"
  from n have n1: "1 \<le> n" and n2: "n \<le> ?M"
    and n3: "calls ?r = [1..n]"
    and n4: "map attempt_number (rows ?r) = filter (insert_ok env) [1..n]"
    and n5: "\<forall>k. 1 \<le> k \<and> k < n \<longrightarrow> \<not> attempt_succeeds env k"
    and n6: "n < ?M \<longrightarrow> attempt_succeeds env n"
    and n7: "sleeps ?r = map (\<lambda>k. calculateBackoff (round64 env) k config)
                           [1..(if attempt_succeeds env n then n - 1 else ?M - 1)]"
    unfolding loop_shape_def fr by simp_all
  have all: "(\<forall>k. insert_ok env k) \<longrightarrow> map attempt_number (rows ?r) = [1..n]"
    unfolding n4 by simp
  have one: "maxRetries = 1 \<longrightarrow> n = 1 \<and> sleeps ?r = []"
  proof
    assume m: "maxRetries = 1"
    then have "n = 1" using n1 n2 by simp
    then show "n = 1 \<and> sleeps ?r = []" unfolding n7 using m by simp
  qed
  show ?thesis
    using n1 n2 n3 n4 all n5 n6 one by blast
qed

lemma flaky_target_run:
  "forwardRequest flaky_target linear_config 3 =
     \<lparr>calls = [1, 2, 3],
      rows = [\<lparr>attempt_number = 1, status = ''failed'', response_status = 500\<rparr>,
              \<lparr>attempt_number = 2, status = ''failed'', response_status = 500\<rparr>,
              \<lparr>attempt_number = 3, status = ''success'', response_status = 200\<rparr>],
      sleeps = [Some 10000000, Some 20000000]\<rparr>"
  by (simp add: forwardRequest_def retry_loop.simps executeForward_def recordForwardAttempt_def
        flaky_target_def backoff_eval linear_config_def)

text \<open>
  The retry scenario of the specification: the target answers 500, 500, 200 under
  \<open>max_retries = 3\<close> with linear backoff from 10 ms; the same target under
  \<open>max_retries = 5\<close> stops after the successful third attempt; and a single attempt
  is made under \<open>max_retries = 1\<close>.
\<close>

theorem forwardRequest_attempts_witness:
  "(\<forall>k. insert_ok flaky_target k) \<and> attempt_succeeds flaky_target 3 \<and>
   \<not> attempt_succeeds flaky_target 1 \<and> \<not> attempt_succeeds flaky_target 2 \<and>
   calls (forwardRequest flaky_target linear_config 3) = [1, 2, 3] \<and>
   sleeps (forwardRequest flaky_target linear_config 3) = [Some 10000000, Some 20000000] \<and>
   (\<exists>n. 1 \<le> n \<and> n \<le> 3 \<and>
        map attempt_number (rows (forwardRequest flaky_target linear_config 3)) = [1..n]) \<and>
   (\<exists>n. n \<le> 5 \<and> (n < 5 \<and> attempt_succeeds flaky_target n \<or> n = 5) \<and>
        map attempt_number (rows (forwardRequest flaky_target linear_config 5)) = [1..n]) \<and>
   (\<exists>n. n = 1 \<and> sleeps (forwardRequest flaky_target linear_config 1) = [])"
proof -
  have a: "\<forall>k. insert_ok flaky_target k" by (simp add: flaky_target_def)
  have b: "attempt_succeeds flaky_target 3" "\<not> attempt_succeeds flaky_target 1"
    "\<not> attempt_succeeds flaky_target 2"
    by (simp_all add: flaky_target_def attempt_succeeds_def)
  have c: "calls (forwardRequest flaky_target linear_config 3) = [1, 2, 3]"
    "sleeps (forwardRequest flaky_target linear_config 3) = [Some 10000000, Some 20000000]"
    by (simp_all add: flaky_target_run)
  from forwardRequest_attempts [of 3 flaky_target linear_config] a
  have d: "\<exists>n. 1 \<le> n \<and> n \<le> 3 \<and>
        map attempt_number (rows (forwardRequest flaky_target linear_config 3)) = [1..n]"
    by auto
  from forwardRequest_attempts [of 5 flaky_target linear_config] a
  have e: "\<exists>n. n \<le> 5 \<and> (n < 5 \<and> attempt_succeeds flaky_target n \<or> n = 5) \<and>
        map attempt_number (rows (forwardRequest flaky_target linear_config 5)) = [1..n]"
    by (simp add: max_def) (metis less_le)
  from forwardRequest_attempts [of 1 flaky_target linear_config]
  have f: "\<exists>n. n = 1 \<and> sleeps (forwardRequest flaky_target linear_config 1) = []"
    by auto
  show ?thesis using a b c d e f by blast
qed

text \<open>
  Against C6 as stated: a rule stored with \<open>max_retries = 0\<close> still makes attempt 1,
  so one row is recorded although \<open>max_retries\<close> is 0; and when the insert of attempt 1
  fails while attempt 2 is recorded, the recorded numbers are \<open>[2]\<close>, not a prefix
  starting at 1.
\<close>

theorem forwardRequest_attempts_counterexample:
  "map attempt_number (rows (forwardRequest flaky_target linear_config 0)) = [1] \<and>
   \<not> int (length (rows (forwardRequest flaky_target linear_config 0))) \<le> 0 \<and>
   map attempt_number (rows (forwardRequest lossy_store linear_config 3)) = [2]"
  by (simp add: forwardRequest_def retry_loop.simps executeForward_def recordForwardAttempt_def
        flaky_target_def lossy_store_def backoff_eval linear_config_def)

section \<open>Properties of the rate limiter\<close>









lemma hour_pos: "0 < hour" and minute_lt_hour: "minute < hour" and minute_pos: "0 < minute"
  by (simp_all add: hour_def minute_def second_def)














lemmas limiter_eval =
  run_limiter_def limiter_step_def CheckRateLimit_def Let_def clean_old_def requests_of_def
  check_window_def count_after_def After_def admissions_def in_window_def only_day_limit_def
  only_minute_limit_def hour_def minute_def second_def


text \<open>
  Claim C5 asks that a request is denied whenever the admissions of the trailing 24
  hours have reached the per-day limit. The limiter first drops every timestamp older
  than one hour and only then counts the day window, so the day count never sees more
  than the last hour: with a per-day limit of 2 and captures at 0 h, 2 h and 4 h, the
  third capture finds two admissions inside its trailing 24 hours and is admitted all
  the same.
\<close>

theorem per_day_limit_not_enforced:
  "snd (run_limiter day_calls) =
     [(demo_slug, 0, True), (demo_slug, 2 * hour, True), (demo_slug, 4 * hour, True)] \<and>
   length (filter (in_window (4 * hour) (24 * hour))
             (admissions demo_slug (snd (run_limiter (take 2 day_calls))))) = 2"
  by (simp add: day_calls_def limiter_eval demo_slug_def)

section \<open>Properties of the capture handler\<close>

text \<open>
  Once the slug is not empty, the endpoint is found and the body is read, the handler is
  the chain of the size check, the limiter, the verifier and the insert.
\<close>

lemma CaptureHandler_stages:
  assumes "path_slug (url_path r) \<noteq> []"
    and "query_endpoint db (endpoint_query_fault r) (path_slug (url_path r)) = Row eid"
    and "read_limited (body_stream r) (body_broken r) (int64_wrap (max_body_size pf + 1)) = Some body"
  shows "CaptureHandler pf db r srv =
     (if int (length body) > max_body_size pf
        then (\<lparr>code = 413, message = ''Request body too large''\<rparr>, srv)
      else
       (case CheckRateLimit (query_rate_limits db (rate_query_fault r) eid)
               (uuid_String eid) (clock r) (limiter srv) of
          ((allowed, rerr), lims') \<Rightarrow>
        (case rerr of
             Some e \<Rightarrow> (\<lparr>code = 429, message = rate_error_text e\<rparr>, srv\<lparr>limiter := lims'\<rparr>)
           | None \<Rightarrow>
        if \<not> allowed then (\<lparr>code = 429, message = ''Rate limit exceeded''\<rparr>, srv\<lparr>limiter := lims'\<rparr>)
        else
        (case VerifySignature (hmac pf) (query_hmac db (hmac_query_fault r) eid)
                (headers r) body of
           (verified, verr) \<Rightarrow>
         (case verr of
            Some e \<Rightarrow>
              (\<lparr>code = 500,
                message = ''Signature verification error: '' @ verify_error_text e\<rparr>, srv\<lparr>limiter := lims'\<rparr>)
          | None \<Rightarrow>
         if \<not> verified then (\<lparr>code = 401, message = ''Invalid signature''\<rparr>, srv\<lparr>limiter := lims'\<rparr>)
         else
          (case insert_fault r of
               Some e \<Rightarrow>
                 (\<lparr>code = 500, message = ''Failed to save request: '' @ e\<rparr>, srv\<lparr>limiter := lims'\<rparr>)
             | None \<Rightarrow>
                 (\<lparr>code = 200, message = ''OK''\<rparr>,
                  srv\<lparr>limiter := lims',
                      requests := requests srv @
                          [\<lparr>req_id = new_uuid r, req_endpoint_id = eid,
                            req_method = http_method r, req_path = url_path r,
                            req_headers = headers_json r,
                            req_query_params = query_params_json r,
                            req_ip = client_ip r, req_body = capture_body_text body,
                            req_body_size = int (length body),
                            req_content_type = content_type_of (headers r)\<rparr>],
                        bus := publishRequestEvent (marshal_event pf) eid (new_uuid r)
                                 (http_method r) (bus srv)\<rparr>)))))))"
  using assms by (simp add: CaptureHandler_def Let_def split: prod.splits option.splits)

lemma CaptureHandler_early:
  assumes "path_slug (url_path r) = [] \<or>
           (\<forall>eid. query_endpoint db (endpoint_query_fault r) (path_slug (url_path r)) \<noteq> Row eid) \<or>
           read_limited (body_stream r) (body_broken r) (int64_wrap (max_body_size pf + 1)) = None"
  shows "snd (CaptureHandler pf db r srv) = srv \<and> code (fst (CaptureHandler pf db r srv)) \<in> {400, 404, 500}"
  using assms
  by (auto simp add: CaptureHandler_def Let_def split: query_result.splits option.splits)

lemma VerifySignature_mismatch:
  assumes "secret \<noteq> []" and "signature_header h \<noteq> []"
    and "strip_prefixes algorithm (signature_header h) \<noteq> expected_signature mac algorithm secret body"
  shows "VerifySignature mac (Row (Some secret, algorithm)) h body = (False, None)"
  using assms by (simp add: VerifySignature_def Let_def hmac_Equal_def)

lemma VerifySignature_missing:
  assumes "secret \<noteq> []" and "signature_header h = []"
  shows "VerifySignature mac (Row (Some secret, algorithm)) h body = (False, Some NoSignatureHeader)"
  using assms by (simp add: VerifySignature_def Let_def)

lemma signature_header_empty:
  "signature_header h = [] \<longleftrightarrow>
     Header_Get h ''X-Signature'' = [] \<and> Header_Get h ''X-Hub-Signature-256'' = [] \<and>
     Header_Get h ''X-Stripe-Signature'' = [] \<and> Header_Get h ''Signature'' = []"
  by (auto simp add: signature_header_def Let_def)


lemmas capture_eval =
  CaptureHandler_def Let_def path_slug_def TrimPrefix_def has_prefix_def query_endpoint_def
  max_body_size_def int64_wrap_def read_limited_def CheckRateLimit_def query_rate_limits_def
  VerifySignature_def query_hmac_def capture_body_text_def utf8_Valid_def content_type_of_def
  Header_Get_def publishRequestEvent_def broadcastToSSE_def hex_EncodeToString_def hex_byte_def
  hextable_def signature_header_def strip_prefixes_def expected_signature_def hmac_Equal_def
  clean_old_def requests_of_def check_window_def count_after_def After_def
  b64_def encodeStd_def try_send_def channel_capacity_def

lemmas example_defs =
  demo_slug_def demo_id_def no_limits_def plain_db_def signed_db_def limited_db_def
  limit_only_db_def demo_mac_def
  demo_marshal_def demo_platform_def tiny_platform_def demo_body_def demo_request_def
  tampered_request_def binary_request_def subscribed_server_def oversized_request_def



text \<open>
  The event bus by itself: a broadcast under a key appends the message to the channel
  of every connection registered under that key whose buffer has room and leaves every
  other channel as it is, a full one included. The capture handler publishes under the
  text of the endpoint's UUID, which is 36 characters long, so with no connection
  registered under that text the publish changes nothing.
\<close>

lemma try_send_channels:
  "channels (try_send data mgr c) c' =
     (if c' = c \<and> length (channels mgr c) < channel_capacity then channels mgr c @ [data]
      else channels mgr c')"
  by (simp add: try_send_def)

lemma try_send_connections: "connections (try_send data mgr c) = connections mgr"
  by (simp add: try_send_def)

lemma foldl_try_send_channels:
  "distinct conns \<Longrightarrow>
   channels (foldl (try_send data) mgr conns) c =
     (if c \<in> set conns \<and> length (channels mgr c) < channel_capacity
        then channels mgr c @ [data] else channels mgr c)"
proof (induction conns arbitrary: mgr)
  case Nil
  show ?case by simp
next
  case (Cons x xs)
  from Cons.prems have d: "distinct xs" and nx: "x \<notin> set xs" by simp_all
  show ?case
    using nx by (auto simp add: Cons.IH[OF d] try_send_channels)
qed

lemma broadcastToSSE_delivery:
  assumes "connections mgr key = Some conns" and "distinct conns" and "marshal event = Some data"
  shows "channels (broadcastToSSE marshal key event mgr) c =
     (if c \<in> set conns \<and> length (channels mgr c) < channel_capacity
        then channels mgr c @ [data] else channels mgr c)"
  using assms by (cases conns) (simp_all add: broadcastToSSE_def foldl_try_send_channels del: foldl_Cons)

lemma publish_without_listener:
  "connections mgr (uuid_String endpointID) = None \<Longrightarrow>
   publishRequestEvent marshal endpointID requestID m mgr = mgr"
  by (simp add: publishRequestEvent_def broadcastToSSE_def)

lemma hex_length: "length (hex_EncodeToString bs) = 2 * length bs"
  by (induction bs) (simp_all add: hex_EncodeToString_def hex_byte_def)

lemma uuid_String_length: "length u = 16 \<Longrightarrow> length (uuid_String (UUID u)) = 36"
  by (simp add: hex_length)


text \<open>
  Claim C1 asks that a capture event reaches every subscriber registered under the
  endpoint's slug whose channel has room. The handler publishes under the text of the
  endpoint's UUID, while subscribers are registered under the slug: for the endpoint
  \<open>fh_abc12345\<close> with one subscriber with an empty channel, the capture is stored
  and answered with 200 and the subscriber's channel stays empty.
\<close>

theorem capture_event_not_delivered:
  "endpoints plain_db demo_slug = Some demo_id \<and>
   connections (bus subscribed_server) demo_slug = Some [0] \<and>
   length (channels (bus subscribed_server) 0) < channel_capacity \<and>
   code (fst (CaptureHandler demo_platform plain_db demo_request subscribed_server)) = 200 \<and>
   length (requests (snd (CaptureHandler demo_platform plain_db demo_request subscribed_server))) = 1 \<and>
   channels (bus (snd (CaptureHandler demo_platform plain_db demo_request subscribed_server))) 0 = []"
  by (simp add: capture_eval example_defs)


text \<open>
  Claim C2 asks that a body that is not valid UTF-8 is stored as base64 behind a fixed
  marker. The capture handler stores the bare base64 text: the one-byte body \<open>0xFF\<close>
  is stored as \<open>/w==\<close>, the same text under which the four-byte text body \<open>/w==\<close>
  is stored, while the forwarder's response bodies carry the marker
  \<open>[BINARY DATA - Base64 Encoded]\<close> before the base64 text.
\<close>

theorem capture_binary_body_unmarked:
  "\<not> utf8_Valid [CHR 0xFF] \<and>
   capture_body_text [CHR 0xFF] = Some ''/w=='' \<and>
   response_body_text [CHR 0xFF] = Some (binary_marker @ ''/w=='') \<and>
   map req_body (requests (snd (CaptureHandler demo_platform plain_db binary_request subscribed_server)))
     = [Some ''/w==''] \<and>
   capture_body_text ''/w=='' = capture_body_text [CHR 0xFF]"
  by (simp add: capture_eval example_defs response_body_text_def binary_marker_def)


text \<open>
  Claim C3. For an endpoint with an HMAC secret, a capture whose signature header is
  present and whose digest, after the prefixes are stripped, differs from the
  hex-encoded HMAC of the raw body under the configured algorithm is never persisted;
  it is answered 401 Unauthorized whenever the body is within the size limit and the
  limiter admits the request (the two earlier checks answer 413 and 429). The
  comparison is \<^verbatim>\<open>hmac.Equal\<close> on the two hex texts.
\<close>

theorem bad_signature_never_persisted:
  "path_slug (url_path r) \<noteq> [] \<and>
   query_endpoint db (endpoint_query_fault r) (path_slug (url_path r)) = Row eid \<and>
   query_hmac db (hmac_query_fault r) eid = Row (Some secret, algorithm) \<and> secret \<noteq> [] \<and>
   read_limited (body_stream r) (body_broken r) (int64_wrap (max_body_size pf + 1)) = Some body \<and>
   signature_header (headers r) \<noteq> [] \<and>
   strip_prefixes algorithm (signature_header (headers r)) \<noteq>
     expected_signature (hmac pf) algorithm secret body
   \<longrightarrow>
   requests (snd (CaptureHandler pf db r srv)) = requests srv \<and>
   code (fst (CaptureHandler pf db r srv)) \<in> {413, 429, 401} \<and>
   (int (length body) \<le> max_body_size pf \<and>
    fst (CheckRateLimit (query_rate_limits db (rate_query_fault r) eid) (uuid_String eid)
           (clock r) (limiter srv)) = (True, None)
    \<longrightarrow> fst (CaptureHandler pf db r srv) = \<lparr>code = 401, message = ''Invalid signature''\<rparr>)"
proof (intro impI, elim conjE)
  assume a: "path_slug (url_path r) \<noteq> []"
    "query_endpoint db (endpoint_query_fault r) (path_slug (url_path r)) = Row eid"
    "read_limited (body_stream r) (body_broken r) (int64_wrap (max_body_size pf + 1)) = Some body"
  assume st: "query_hmac db (hmac_query_fault r) eid = Row (Some secret, algorithm)"
    and b: "secret \<noteq> []" "signature_header (headers r) \<noteq> []"
      "strip_prefixes algorithm (signature_header (headers r)) \<noteq>
         expected_signature (hmac pf) algorithm secret body"
  note v = VerifySignature_mismatch[OF b]
  show "requests (snd (CaptureHandler pf db r srv)) = requests srv \<and>
   code (fst (CaptureHandler pf db r srv)) \<in> {413, 429, 401} \<and>
   (int (length body) \<le> max_body_size pf \<and>
    fst (CheckRateLimit (query_rate_limits db (rate_query_fault r) eid) (uuid_String eid)
           (clock r) (limiter srv)) = (True, None)
    \<longrightarrow> fst (CaptureHandler pf db r srv) = \<lparr>code = 401, message = ''Invalid signature''\<rparr>)"
    unfolding CaptureHandler_stages[OF a] st v
    by (simp split: prod.splits option.splits)
qed


text \<open>
  The tampered capture of the HMAC scenario: secret \<open>s3cr\<close>, algorithm sha256,
  header \<open>X-Signature: sha256=deadbeef\<close>.
\<close>

theorem bad_signature_never_persisted_witness:
  "query_hmac signed_db (hmac_query_fault tampered_request) demo_id =
     Row (Some ''s3cr'', ''sha256'') \<and>
   signature_header (headers tampered_request) = ''sha256=deadbeef'' \<and>
   strip_prefixes ''sha256'' ''sha256=deadbeef'' = ''deadbeef'' \<and>
   fst (CaptureHandler demo_platform signed_db tampered_request fresh_server) =
     \<lparr>code = 401, message = ''Invalid signature''\<rparr> \<and>
   requests (snd (CaptureHandler demo_platform signed_db tampered_request fresh_server)) = []"
proof -
  have pre: "path_slug (url_path tampered_request) \<noteq> []"
    "query_endpoint signed_db (endpoint_query_fault tampered_request)
       (path_slug (url_path tampered_request)) = Row demo_id"
    "query_hmac signed_db (hmac_query_fault tampered_request) demo_id =
       Row (Some ''s3cr'', ''sha256'')"
    "''s3cr'' \<noteq> []"
    "read_limited (body_stream tampered_request) (body_broken tampered_request)
       (int64_wrap (max_body_size demo_platform + 1)) = Some demo_body"
    "signature_header (headers tampered_request) = ''sha256=deadbeef''"
    "strip_prefixes ''sha256'' ''sha256=deadbeef'' = ''deadbeef''"
    "expected_signature (hmac demo_platform) ''sha256'' ''s3cr'' demo_body \<noteq> ''deadbeef''"
    "int (length demo_body) \<le> max_body_size demo_platform"
    "fst (CheckRateLimit (query_rate_limits signed_db (rate_query_fault tampered_request) demo_id)
           (uuid_String demo_id) (clock tampered_request) (limiter fresh_server)) = (True, None)"
    "requests fresh_server = []"
    by (simp_all add: capture_eval example_defs fresh_server_def)
  from bad_signature_never_persisted [where r = tampered_request and db = signed_db
      and eid = demo_id and secret = "''s3cr''" and algorithm = "''sha256''"
      and pf = demo_platform and body = demo_body and srv = fresh_server]
  show ?thesis using pre by simp
qed

lemma read_exact:
  assumes "m < 2 ^ 63 - 1" and "\<not> broken" and "int (length stream) = m"
  shows "read_limited stream broken (int64_wrap (m + 1)) = Some stream"
proof -
  have "0 \<le> m" using assms(3) by simp
  then have "int64_wrap (m + 1) = m + 1" using assms(1) by (intro int64_wrap_id) simp_all
  then show ?thesis using assms by (simp add: read_limited_def)
qed

lemma read_over:
  assumes "m < 2 ^ 63 - 1" and "int (length stream) = m + 1"
  shows "\<exists>body. read_limited stream broken (int64_wrap (m + 1)) = Some body \<and> int (length body) > m"
proof -
  have "0 \<le> m + 1" using assms(2) by simp
  then have w: "int64_wrap (m + 1) = m + 1" using assms(1) by (intro int64_wrap_id) simp_all
  show ?thesis unfolding w using assms(2) by (auto simp add: read_limited_def)
qed

lemma CaptureHandler_persists:
  "requests (snd (CaptureHandler pf db r srv)) = requests srv \<or>
   (\<exists>body row. read_limited (body_stream r) (body_broken r) (int64_wrap (max_body_size pf + 1))
                  = Some body \<and>
        int (length body) \<le> max_body_size pf \<and>
        requests (snd (CaptureHandler pf db r srv)) = requests srv @ [row] \<and>
        req_body_size row = int (length body) \<and> req_body row = capture_body_text body)"
proof (cases "path_slug (url_path r) = [] \<or>
           (\<forall>eid. query_endpoint db (endpoint_query_fault r) (path_slug (url_path r)) \<noteq> Row eid) \<or>
           read_limited (body_stream r) (body_broken r) (int64_wrap (max_body_size pf + 1)) = None")
  case True
  from CaptureHandler_early[OF this] show ?thesis by simp
next
  case False
  then obtain eid body where a: "path_slug (url_path r) \<noteq> []"
    "query_endpoint db (endpoint_query_fault r) (path_slug (url_path r)) = Row eid"
    "read_limited (body_stream r) (body_broken r) (int64_wrap (max_body_size pf + 1)) = Some body"
    by auto
  show ?thesis
    unfolding CaptureHandler_stages[OF a] a(3)
    by (simp split: prod.splits option.splits)
qed

text \<open>
  Claim C9. A body of exactly \<open>max_body_size\<close> bytes passes the size check and, when
  the limiter, the verifier and the insert let it through, is stored with
  \<open>body_size = max_body_size\<close>; a body of \<open>max_body_size + 1\<close> bytes is answered 413
  and not stored; and every row the handler stores has \<open>body_size\<close> equal to the
  length of the body read, which is at most \<open>max_body_size\<close>. The limit is an int64
  whose successor must not wrap.
\<close>

theorem body_size_boundary:
  "(path_slug (url_path r) \<noteq> [] \<and>
    query_endpoint db (endpoint_query_fault r) (path_slug (url_path r)) = Row eid \<and>
    max_body_size pf < 2 ^ 63 - 1 \<and> \<not> body_broken r \<and>
    int (length (body_stream r)) = max_body_size pf \<and>
    fst (CheckRateLimit (query_rate_limits db (rate_query_fault r) eid) (uuid_String eid)
           (clock r) (limiter srv)) = (True, None) \<and>
    VerifySignature (hmac pf) (query_hmac db (hmac_query_fault r) eid) (headers r)
      (body_stream r) = (True, None) \<and>
    insert_fault r = None
    \<longrightarrow> fst (CaptureHandler pf db r srv) = \<lparr>code = 200, message = ''OK''\<rparr> \<and>
        (\<exists>row. requests (snd (CaptureHandler pf db r srv)) = requests srv @ [row] \<and>
               req_body_size row = max_body_size pf)) \<and>
   (path_slug (url_path r) \<noteq> [] \<and>
    query_endpoint db (endpoint_query_fault r) (path_slug (url_path r)) = Row eid \<and>
    max_body_size pf < 2 ^ 63 - 1 \<and>
    int (length (body_stream r)) = max_body_size pf + 1
    \<longrightarrow> fst (CaptureHandler pf db r srv) = \<lparr>code = 413, message = ''Request body too large''\<rparr> \<and>
        requests (snd (CaptureHandler pf db r srv)) = requests srv) \<and>
   (requests (snd (CaptureHandler pf db r srv)) = requests srv \<or>
    (\<exists>body row. read_limited (body_stream r) (body_broken r)
                   (int64_wrap (max_body_size pf + 1)) = Some body \<and>
        int (length body) \<le> max_body_size pf \<and>
        requests (snd (CaptureHandler pf db r srv)) = requests srv @ [row] \<and>
        req_body_size row = int (length body) \<and> req_body row = capture_body_text body))"
proof (intro conjI impI)
  assume h: "path_slug (url_path r) \<noteq> [] \<and>
    query_endpoint db (endpoint_query_fault r) (path_slug (url_path r)) = Row eid \<and>
    max_body_size pf < 2 ^ 63 - 1 \<and> \<not> body_broken r \<and>
    int (length (body_stream r)) = max_body_size pf \<and>
    fst (CheckRateLimit (query_rate_limits db (rate_query_fault r) eid) (uuid_String eid)
           (clock r) (limiter srv)) = (True, None) \<and>
    VerifySignature (hmac pf) (query_hmac db (hmac_query_fault r) eid) (headers r)
      (body_stream r) = (True, None) \<and>
    insert_fault r = None"
  then have rd: "read_limited (body_stream r) (body_broken r) (int64_wrap (max_body_size pf + 1))
                  = Some (body_stream r)"
    by (intro read_exact) simp_all
  from h have a: "path_slug (url_path r) \<noteq> []"
    "query_endpoint db (endpoint_query_fault r) (path_slug (url_path r)) = Row eid" by simp_all
  from h obtain lims' where rl:
    "CheckRateLimit (query_rate_limits db (rate_query_fault r) eid) (uuid_String eid)
           (clock r) (limiter srv) = ((True, None), lims')"
    by (cases "CheckRateLimit (query_rate_limits db (rate_query_fault r) eid) (uuid_String eid)
           (clock r) (limiter srv)") auto
  from h have vs: "VerifySignature (hmac pf) (query_hmac db (hmac_query_fault r) eid) (headers r)
      (body_stream r) = (True, None)" and ins: "insert_fault r = None"
    and len: "int (length (body_stream r)) = max_body_size pf" by simp_all
  show "fst (CaptureHandler pf db r srv) = \<lparr>code = 200, message = ''OK''\<rparr>"
    unfolding CaptureHandler_stages[OF a rd] rl vs ins using len by simp
  show "\<exists>row. requests (snd (CaptureHandler pf db r srv)) = requests srv @ [row] \<and>
               req_body_size row = max_body_size pf"
    unfolding CaptureHandler_stages[OF a rd] rl vs ins using len by simp
next
  assume h: "path_slug (url_path r) \<noteq> [] \<and>
    query_endpoint db (endpoint_query_fault r) (path_slug (url_path r)) = Row eid \<and>
    max_body_size pf < 2 ^ 63 - 1 \<and>
    int (length (body_stream r)) = max_body_size pf + 1"
  then obtain body where rd: "read_limited (body_stream r) (body_broken r)
        (int64_wrap (max_body_size pf + 1)) = Some body" and big: "int (length body) > max_body_size pf"
    using read_over[of "max_body_size pf" "body_stream r" "body_broken r"] by blast
  from h have a: "path_slug (url_path r) \<noteq> []"
    "query_endpoint db (endpoint_query_fault r) (path_slug (url_path r)) = Row eid" by simp_all
  show "fst (CaptureHandler pf db r srv) = \<lparr>code = 413, message = ''Request body too large''\<rparr>"
    unfolding CaptureHandler_stages[OF a rd] using big by simp
  show "requests (snd (CaptureHandler pf db r srv)) = requests srv"
    unfolding CaptureHandler_stages[OF a rd] using big by simp
next
  show "requests (snd (CaptureHandler pf db r srv)) = requests srv \<or>
    (\<exists>body row. read_limited (body_stream r) (body_broken r)
                   (int64_wrap (max_body_size pf + 1)) = Some body \<and>
        int (length body) \<le> max_body_size pf \<and>
        requests (snd (CaptureHandler pf db r srv)) = requests srv @ [row] \<and>
        req_body_size row = int (length body) \<and> req_body row = capture_body_text body)"
    by (rule CaptureHandler_persists)
qed


text \<open>A 7-byte limit: the 7-byte body is stored, the 8-byte body is refused.\<close>

theorem body_size_boundary_witness:
  "max_body_size tiny_platform = 7 \<and> int (length (body_stream demo_request)) = 7 \<and>
   int (length (body_stream oversized_request)) = 7 + 1 \<and>
   fst (CaptureHandler tiny_platform plain_db demo_request fresh_server) =
     \<lparr>code = 200, message = ''OK''\<rparr> \<and>
   (\<exists>row. requests (snd (CaptureHandler tiny_platform plain_db demo_request fresh_server)) =
           requests fresh_server @ [row] \<and> req_body_size row = 7) \<and>
   fst (CaptureHandler tiny_platform plain_db oversized_request fresh_server) =
     \<lparr>code = 413, message = ''Request body too large''\<rparr> \<and>
   requests (snd (CaptureHandler tiny_platform plain_db oversized_request fresh_server)) = []"
proof -
  have m: "max_body_size tiny_platform = 7" by (simp add: max_body_size_def tiny_platform_def)
  have l: "int (length (body_stream demo_request)) = 7"
    "int (length (body_stream oversized_request)) = 7 + 1"
    by (simp_all add: example_defs)
  have pre: "path_slug (url_path demo_request) \<noteq> []"
    "query_endpoint plain_db (endpoint_query_fault demo_request) (path_slug (url_path demo_request))
       = Row demo_id"
    "path_slug (url_path oversized_request) \<noteq> []"
    "query_endpoint plain_db (endpoint_query_fault oversized_request)
       (path_slug (url_path oversized_request)) = Row demo_id"
    "\<not> body_broken demo_request" "insert_fault demo_request = None"
    "fst (CheckRateLimit (query_rate_limits plain_db (rate_query_fault demo_request) demo_id)
           (uuid_String demo_id) (clock demo_request) (limiter fresh_server)) = (True, None)"
    "VerifySignature (hmac tiny_platform) (query_hmac plain_db (hmac_query_fault demo_request) demo_id)
       (headers demo_request) (body_stream demo_request) = (True, None)"
    by (simp_all add: example_defs path_slug_def TrimPrefix_def has_prefix_def query_endpoint_def
          CheckRateLimit_def query_rate_limits_def VerifySignature_def query_hmac_def)
  have f: "requests fresh_server = []" by (simp add: fresh_server_def)
  from body_size_boundary [of demo_request plain_db demo_id tiny_platform fresh_server]
    body_size_boundary [of oversized_request plain_db demo_id tiny_platform fresh_server]
  show ?thesis using m l pre f by simp
qed


text \<open>
  Claim C10. For an endpoint with an HMAC secret, a capture that carries none of the
  headers X-Signature, X-Hub-Signature-256, X-Stripe-Signature and Signature is not
  persisted and is never answered 401: once past the size check and the limiter it is
  answered 500 with the text
  \<open>Signature verification error: no signature header found\<close>.
\<close>

theorem missing_signature_header_is_server_error:
  "path_slug (url_path r) \<noteq> [] \<and>
   query_endpoint db (endpoint_query_fault r) (path_slug (url_path r)) = Row eid \<and>
   query_hmac db (hmac_query_fault r) eid = Row (Some secret, algorithm) \<and> secret \<noteq> [] \<and>
   read_limited (body_stream r) (body_broken r) (int64_wrap (max_body_size pf + 1)) = Some body \<and>
   Header_Get (headers r) ''X-Signature'' = [] \<and>
   Header_Get (headers r) ''X-Hub-Signature-256'' = [] \<and>
   Header_Get (headers r) ''X-Stripe-Signature'' = [] \<and>
   Header_Get (headers r) ''Signature'' = []
   \<longrightarrow>
   requests (snd (CaptureHandler pf db r srv)) = requests srv \<and>
   code (fst (CaptureHandler pf db r srv)) \<noteq> 401 \<and>
   (int (length body) \<le> max_body_size pf \<and>
    fst (CheckRateLimit (query_rate_limits db (rate_query_fault r) eid) (uuid_String eid)
           (clock r) (limiter srv)) = (True, None)
    \<longrightarrow> fst (CaptureHandler pf db r srv) =
          \<lparr>code = 500,
           message = ''Signature verification error: no signature header found''\<rparr>)"
proof (intro impI, elim conjE)
  assume a: "path_slug (url_path r) \<noteq> []"
    "query_endpoint db (endpoint_query_fault r) (path_slug (url_path r)) = Row eid"
    "read_limited (body_stream r) (body_broken r) (int64_wrap (max_body_size pf + 1)) = Some body"
  assume st: "query_hmac db (hmac_query_fault r) eid = Row (Some secret, algorithm)"
    and b: "secret \<noteq> []"
    and h: "Header_Get (headers r) ''X-Signature'' = []"
      "Header_Get (headers r) ''X-Hub-Signature-256'' = []"
      "Header_Get (headers r) ''X-Stripe-Signature'' = []"
      "Header_Get (headers r) ''Signature'' = []"
  from h have "signature_header (headers r) = []" by (simp add: signature_header_empty)
  note v = VerifySignature_missing[OF b this]
  show "requests (snd (CaptureHandler pf db r srv)) = requests srv \<and>
   code (fst (CaptureHandler pf db r srv)) \<noteq> 401 \<and>
   (int (length body) \<le> max_body_size pf \<and>
    fst (CheckRateLimit (query_rate_limits db (rate_query_fault r) eid) (uuid_String eid)
           (clock r) (limiter srv)) = (True, None)
    \<longrightarrow> fst (CaptureHandler pf db r srv) =
          \<lparr>code = 500,
           message = ''Signature verification error: no signature header found''\<rparr>)"
    unfolding CaptureHandler_stages[OF a] st v
    by (simp split: prod.splits option.splits)
qed


text \<open>The basic capture sent to the endpoint with secret \<open>s3cr\<close>, unsigned.\<close>

theorem missing_signature_header_is_server_error_witness:
  "query_hmac signed_db (hmac_query_fault demo_request) demo_id =
     Row (Some ''s3cr'', ''sha256'') \<and>
   Header_Get (headers demo_request) ''X-Signature'' = [] \<and>
   Header_Get (headers demo_request) ''X-Hub-Signature-256'' = [] \<and>
   Header_Get (headers demo_request) ''X-Stripe-Signature'' = [] \<and>
   Header_Get (headers demo_request) ''Signature'' = [] \<and>
   fst (CaptureHandler demo_platform signed_db demo_request fresh_server) =
     \<lparr>code = 500, message = ''Signature verification error: no signature header found''\<rparr> \<and>
   requests (snd (CaptureHandler demo_platform signed_db demo_request fresh_server)) = []"
proof -
  have pre: "path_slug (url_path demo_request) \<noteq> []"
    "query_endpoint signed_db (endpoint_query_fault demo_request)
       (path_slug (url_path demo_request)) = Row demo_id"
    "query_hmac signed_db (hmac_query_fault demo_request) demo_id =
       Row (Some ''s3cr'', ''sha256'')"
    "''s3cr'' \<noteq> []"
    "read_limited (body_stream demo_request) (body_broken demo_request)
       (int64_wrap (max_body_size demo_platform + 1)) = Some demo_body"
    "Header_Get (headers demo_request) ''X-Signature'' = []"
    "Header_Get (headers demo_request) ''X-Hub-Signature-256'' = []"
    "Header_Get (headers demo_request) ''X-Stripe-Signature'' = []"
    "Header_Get (headers demo_request) ''Signature'' = []"
    "int (length demo_body) \<le> max_body_size demo_platform"
    "fst (CheckRateLimit (query_rate_limits signed_db (rate_query_fault demo_request) demo_id)
           (uuid_String demo_id) (clock demo_request) (limiter fresh_server)) = (True, None)"
    "requests fresh_server = []"
    by (simp_all add: capture_eval example_defs fresh_server_def)
  from missing_signature_header_is_server_error [where r = demo_request and db = signed_db
      and eid = demo_id and secret = "''s3cr''" and algorithm = "''sha256''"
      and pf = demo_platform and body = demo_body and srv = fresh_server]
  show ?thesis using pre by simp
qed

section \<open>Admission under a per-minute limit\<close>

























section \<open>Properties of the transformation chain\<close>

lemma apply_rows_fold:
  "\<forall>t\<in>set ts. t_language t \<noteq> None \<Longrightarrow> apply_rows exec ts v = foldl (skip_on_error exec) v ts"
  by (induction ts arbitrary: v)
     (auto simp add: skip_on_error_def run_one_def split: option.splits sum.splits)

lemma fold_all_errors:
  "\<forall>t\<in>set ts. isl (run_one exec t v) \<Longrightarrow> foldl (skip_on_error exec) v ts = v"
  by (induction ts) (auto simp: skip_on_error_def split: sum.splits)

lemma query_transformations_mset:
  "mset (query_transformations table eid applyTo) = mset (filter (selected eid applyTo) table)"
  by (simp add: query_transformations_def)

lemma query_transformations_sorted:
  "sorted (map t_created_at (query_transformations table eid applyTo))"
  by (simp add: query_transformations_def)

text \<open>
  When the fetch does not fail and no selected row has a NULL language, the function
  returns the specification's fold over the selected rows.
\<close>

lemma ApplyTransformations_scanned:
  assumes "\<forall>t\<in>set (query_transformations table eid applyTo). t_language t \<noteq> None"
  shows "ApplyTransformations exec table None eid applyTo data =
           Inr (foldl (skip_on_error exec) data (query_transformations table eid applyTo))"
  using apply_rows_fold[OF assms] by (simp add: ApplyTransformations_def)




end
